theory Spec2Isabelle
  imports Main
begin

section \<open>Query records of the 4CAT search backend\<close>

text \<open>
  A shallow embedding of \<^verbatim>\<open>backend/lib/query.py\<close> (class \<^verbatim>\<open>SearchQuery\<close>) and of the
  part of \<^verbatim>\<open>backend/lib/database.py\<close> it calls.

  Conventions of the model:
  \<^item> a Python \<^verbatim>\<open>str\<close> is a \<^typ>\<open>string\<close>; a character is a code point below 256, so the
    model covers Latin-1 text;
  \<^item> Python integers are \<^typ>\<open>int\<close> or \<^typ>\<open>nat\<close>; the 32-bit words of MD5 are naturals
    with the wrap-around \<open>mod 2 ^ 32\<close> written out;
  \<^item> the table \<^verbatim>\<open>queries\<close> is a list of rows, the result directory a list of the paths of
    the files that exist;
  \<^item> an exception is a value \<open>Inl e\<close>; a method takes the database and the object and
    returns its outcome together with the database and the object after the call.
\<close>

subsection \<open>Python strings\<close>

text \<open>\<^verbatim>\<open>str.lower()\<close> on code points below 256: A-Z and the upper-case letters of Latin-1
  (192 to 222 without the multiplication sign 215) move up by 32.\<close>

definition lower_char :: "char \<Rightarrow> char" where
  "lower_char c = (let n = (of_char c :: nat) in
     if (65 \<le> n \<and> n \<le> 90) \<or> (192 \<le> n \<and> n \<le> 222 \<and> n \<noteq> 215) then char_of (n + 32) else c)"

definition lower :: "string \<Rightarrow> string" where
  "lower s = map lower_char s"

text \<open>\<^verbatim>\<open>s.replace(" ", "-")\<close>\<close>

definition replace_space :: "string \<Rightarrow> string" where
  "replace_space s = map (\<lambda>c. if c = CHR '' '' then CHR ''-'' else c) s"

text \<open>The characters that \<^verbatim>\<open>re.sub(r"[^a-z0-9\-]", "", s)\<close> keeps.\<close>

definition slug_char :: "char \<Rightarrow> bool" where
  "slug_char c = (let n = (of_char c :: nat) in
     (97 \<le> n \<and> n \<le> 122) \<or> (48 \<le> n \<and> n \<le> 57) \<or> n = 45)"

definition re_sub_slug :: "string \<Rightarrow> string" where
  "re_sub_slug s = filter slug_char s"

text \<open>\<^verbatim>\<open>str(n)\<close> for a natural number and for an integer.\<close>

fun str_nat :: "nat \<Rightarrow> string" where
  "str_nat n = (if n < 10 then [char_of (48 + n)] else str_nat (n div 10) @ [char_of (48 + n mod 10)])"

declare str_nat.simps [simp del]

definition str_int :: "int \<Rightarrow> string" where
  "str_int i = (if i < 0 then CHR ''-'' # str_nat (nat (- i)) else str_nat (nat i))"

text \<open>\<^verbatim>\<open>sep.join(xs)\<close>\<close>

fun join :: "string \<Rightarrow> string list \<Rightarrow> string" where
  "join sep [] = []"
| "join sep [x] = x"
| "join sep (x # y # ys) = x @ sep @ join sep (y # ys)"

text \<open>\<^verbatim>\<open>path.split("/").pop()\<close>: what follows the last slash.\<close>

definition split_pop :: "string \<Rightarrow> string" where
  "split_pop p = rev (takeWhile (\<lambda>c. c \<noteq> CHR ''/'') (rev p))"

definition hex_digit :: "nat \<Rightarrow> char" where
  "hex_digit n = ''0123456789abcdef'' ! (n mod 16)"

definition hex_byte :: "nat \<Rightarrow> string" where
  "hex_byte n = [hex_digit (n div 16), hex_digit n]"

subsection \<open>Parameter values, \<^verbatim>\<open>repr\<close> and \<^verbatim>\<open>json.dumps\<close>\<close>

text \<open>The parameters of a query are a Python value built from \<^verbatim>\<open>None\<close>, booleans,
  integers, strings, lists and dictionaries with string keys. A dictionary keeps its
  insertion order, so it is an association list.\<close>

datatype pyval =
    PNone
  | PBool bool
  | PInt int
  | PStr string
  | PList "pyval list"
  | PDict "(string \<times> pyval) list"

text \<open>\<^verbatim>\<open>str.isprintable()\<close> below 256.\<close>

definition printable :: "char \<Rightarrow> bool" where
  "printable c = (let n = (of_char c :: nat) in (32 \<le> n \<and> n < 127) \<or> (161 \<le> n \<and> n \<noteq> 173))"

definition repr_char :: "char \<Rightarrow> char \<Rightarrow> string" where
  "repr_char quote c =
     (if c = quote \<or> c = CHR 0x5C then [CHR 0x5C, c]
      else if c = CHR 0x09 then [CHR 0x5C, CHR ''t'']
      else if c = CHR 0x0A then [CHR 0x5C, CHR ''n'']
      else if c = CHR 0x0D then [CHR 0x5C, CHR ''r'']
      else if printable c then [c]
      else [CHR 0x5C, CHR ''x''] @ hex_byte (of_char c))"

text \<open>\<^verbatim>\<open>repr\<close> of a string: double quotes when the string has a single quote and no
  double quote, single quotes otherwise.\<close>

definition repr_str :: "string \<Rightarrow> string" where
  "repr_str s =
     (let quote = (if CHR 0x27 \<in> set s \<and> CHR 0x22 \<notin> set s then CHR 0x22 else CHR 0x27)
      in quote # concat (map (repr_char quote) s) @ [quote])"

fun repr :: "pyval \<Rightarrow> string" where
  "repr PNone = ''None''"
| "repr (PBool b) = (if b then ''True'' else ''False'')"
| "repr (PInt i) = str_int i"
| "repr (PStr s) = repr_str s"
| "repr (PList xs) = ''['' @ join '', '' (map repr xs) @ '']''"
| "repr (PDict kvs) =
     ''{'' @ join '', '' (map (\<lambda>kv. repr_str (fst kv) @ '': '' @ repr (snd kv)) kvs) @ ''}''"

text \<open>\<^verbatim>\<open>json.dumps\<close> with its defaults (\<^verbatim>\<open>ensure_ascii\<close>, separators \<^verbatim>\<open>", "\<close> and
  \<^verbatim>\<open>": "\<close>).\<close>

definition json_char :: "char \<Rightarrow> string" where
  "json_char c =
     (if c = CHR 0x22 then [CHR 0x5C, CHR 0x22]
      else if c = CHR 0x5C then [CHR 0x5C, CHR 0x5C]
      else if c = CHR 0x0A then [CHR 0x5C, CHR ''n'']
      else if c = CHR 0x0D then [CHR 0x5C, CHR ''r'']
      else if c = CHR 0x09 then [CHR 0x5C, CHR ''t'']
      else if c = CHR 0x08 then [CHR 0x5C, CHR ''b'']
      else if c = CHR 0x0C then [CHR 0x5C, CHR ''f'']
      else if 32 \<le> (of_char c :: nat) \<and> (of_char c :: nat) \<le> 126 then [c]
      else [CHR 0x5C, CHR ''u'', CHR ''0'', CHR ''0''] @ hex_byte (of_char c))"

definition json_str :: "string \<Rightarrow> string" where
  "json_str s = CHR 0x22 # concat (map json_char s) @ [CHR 0x22]"

fun json_dumps :: "pyval \<Rightarrow> string" where
  "json_dumps PNone = ''null''"
| "json_dumps (PBool b) = (if b then ''true'' else ''false'')"
| "json_dumps (PInt i) = str_int i"
| "json_dumps (PStr s) = json_str s"
| "json_dumps (PList xs) = ''['' @ join '', '' (map json_dumps xs) @ '']''"
| "json_dumps (PDict kvs) =
     ''{'' @ join '', '' (map (\<lambda>kv. json_str (fst kv) @ '': '' @ json_dumps (snd kv)) kvs) @ ''}''"

subsection \<open>UTF-8 and MD5\<close>

text \<open>\<^verbatim>\<open>s.encode("utf-8")\<close> for code points below 256: one byte below 128, two bytes
  from 128 on.\<close>

unbundle bit_operations_syntax

type_synonym u8 = nat
type_synonym u32 = nat

definition utf8_char :: "char \<Rightarrow> u8 list" where
  "utf8_char c = (let n = (of_char c :: nat) in
     if n < 128 then [n] else [192 + n div 64, 128 + n mod 64])"

definition encode_utf8 :: "string \<Rightarrow> u8 list" where
  "encode_utf8 s = concat (map utf8_char s)"

text \<open>MD5 (RFC 1321), as \<^verbatim>\<open>hashlib.md5\<close> computes it: the message is padded to a multiple
  of 64 bytes, every block of sixteen little-endian words goes through four rounds of
  sixteen operations (message word, rotation, constant), and the four state words are
  printed as little-endian bytes in lower-case hexadecimal.\<close>

definition add32 :: "u32 \<Rightarrow> u32 \<Rightarrow> u32" where
  "add32 x y = (x + y) mod 4294967296"

definition not32 :: "u32 \<Rightarrow> u32" where
  "not32 x = 4294967295 - x mod 4294967296"
type_synonym md5_state = "u32 \<times> u32 \<times> u32 \<times> u32"

definition md5_F :: "u32 \<Rightarrow> u32 \<Rightarrow> u32 \<Rightarrow> u32" where
  "md5_F x y z = (x AND y) OR (not32 x AND z)"

definition md5_G :: "u32 \<Rightarrow> u32 \<Rightarrow> u32 \<Rightarrow> u32" where
  "md5_G x y z = (x AND z) OR (y AND not32 z)"

definition md5_H :: "u32 \<Rightarrow> u32 \<Rightarrow> u32 \<Rightarrow> u32" where
  "md5_H x y z = x XOR y XOR z"

definition md5_I :: "u32 \<Rightarrow> u32 \<Rightarrow> u32 \<Rightarrow> u32" where
  "md5_I x y z = y XOR (x OR not32 z)"

definition rotl32 :: "u32 \<Rightarrow> nat \<Rightarrow> u32" where
  "rotl32 x n = (x * 2 ^ n) mod 4294967296 OR x div 2 ^ (32 - n)"

fun md5_op :: "(u32 \<Rightarrow> u32 \<Rightarrow> u32 \<Rightarrow> u32) \<Rightarrow> u32 list \<Rightarrow> md5_state \<Rightarrow> nat \<times> nat \<times> u32 \<Rightarrow> md5_state" where
  "md5_op f m (a, b, c, d) (g, s, k) = (d, add32 b (rotl32 (add32 (add32 (add32 a (f b c d)) (m ! g)) k) s), b, c)"

definition md5_round1 :: "(nat \<times> nat \<times> u32) list" where
  "md5_round1 = [
    (0, 7, 0xd76aa478), (1, 12, 0xe8c7b756), (2, 17, 0x242070db), (3, 22, 0xc1bdceee),
    (4, 7, 0xf57c0faf), (5, 12, 0x4787c62a), (6, 17, 0xa8304613), (7, 22, 0xfd469501),
    (8, 7, 0x698098d8), (9, 12, 0x8b44f7af), (10, 17, 0xffff5bb1), (11, 22, 0x895cd7be),
    (12, 7, 0x6b901122), (13, 12, 0xfd987193), (14, 17, 0xa679438e), (15, 22, 0x49b40821)]"

definition md5_round2 :: "(nat \<times> nat \<times> u32) list" where
  "md5_round2 = [
    (1, 5, 0xf61e2562), (6, 9, 0xc040b340), (11, 14, 0x265e5a51), (0, 20, 0xe9b6c7aa),
    (5, 5, 0xd62f105d), (10, 9, 0x02441453), (15, 14, 0xd8a1e681), (4, 20, 0xe7d3fbc8),
    (9, 5, 0x21e1cde6), (14, 9, 0xc33707d6), (3, 14, 0xf4d50d87), (8, 20, 0x455a14ed),
    (13, 5, 0xa9e3e905), (2, 9, 0xfcefa3f8), (7, 14, 0x676f02d9), (12, 20, 0x8d2a4c8a)]"

definition md5_round3 :: "(nat \<times> nat \<times> u32) list" where
  "md5_round3 = [
    (5, 4, 0xfffa3942), (8, 11, 0x8771f681), (11, 16, 0x6d9d6122), (14, 23, 0xfde5380c),
    (1, 4, 0xa4beea44), (4, 11, 0x4bdecfa9), (7, 16, 0xf6bb4b60), (10, 23, 0xbebfbc70),
    (13, 4, 0x289b7ec6), (0, 11, 0xeaa127fa), (3, 16, 0xd4ef3085), (6, 23, 0x04881d05),
    (9, 4, 0xd9d4d039), (12, 11, 0xe6db99e5), (15, 16, 0x1fa27cf8), (2, 23, 0xc4ac5665)]"

definition md5_round4 :: "(nat \<times> nat \<times> u32) list" where
  "md5_round4 = [
    (0, 6, 0xf4292244), (7, 10, 0x432aff97), (14, 15, 0xab9423a7), (5, 21, 0xfc93a039),
    (12, 6, 0x655b59c3), (3, 10, 0x8f0ccc92), (10, 15, 0xffeff47d), (1, 21, 0x85845dd1),
    (8, 6, 0x6fa87e4f), (15, 10, 0xfe2ce6e0), (6, 15, 0xa3014314), (13, 21, 0x4e0811a1),
    (4, 6, 0xf7537e82), (11, 10, 0xbd3af235), (2, 15, 0x2ad7d2bb), (9, 21, 0xeb86d391)]"

definition md5_rounds :: "u32 list \<Rightarrow> md5_state \<Rightarrow> md5_state" where
  "md5_rounds m st =
     foldl (md5_op md5_I m) (foldl (md5_op md5_H m) (foldl (md5_op md5_G m)
       (foldl (md5_op md5_F m) st md5_round1) md5_round2) md5_round3) md5_round4"

fun le_word32 :: "u8 list \<Rightarrow> u32" where
  "le_word32 [] = 0"
| "le_word32 (b # bs) = b + 256 * le_word32 bs"

fun block_words :: "nat \<Rightarrow> u8 list \<Rightarrow> u32 list" where
  "block_words 0 bs = []"
| "block_words (Suc n) bs = le_word32 (take 4 bs) # block_words n (drop 4 bs)"

fun md5_block :: "md5_state \<Rightarrow> u8 list \<Rightarrow> md5_state" where
  "md5_block (a0, b0, c0, d0) blk =
     (case md5_rounds (block_words 16 blk) (a0, b0, c0, d0) of
        (a, b, c, d) \<Rightarrow> (add32 a0 a, add32 b0 b, add32 c0 c, add32 d0 d))"

fun md5_blocks :: "nat \<Rightarrow> md5_state \<Rightarrow> u8 list \<Rightarrow> md5_state" where
  "md5_blocks 0 st bs = st"
| "md5_blocks (Suc n) st bs = md5_blocks n (md5_block st (take 64 bs)) (drop 64 bs)"

fun le_bytes :: "nat \<Rightarrow> nat \<Rightarrow> u8 list" where
  "le_bytes 0 v = []"
| "le_bytes (Suc n) v = v mod 256 # le_bytes n (v div 256)"

definition md5_pad :: "u8 list \<Rightarrow> u8 list" where
  "md5_pad bs = bs @ [0x80] @ replicate ((119 - length bs mod 64) mod 64) 0
                 @ le_bytes 8 ((8 * length bs) mod 18446744073709551616)"

definition hex_word32 :: "u32 \<Rightarrow> string" where
  "hex_word32 w = concat (map (\<lambda>b. hex_byte b) (le_bytes 4 w))"

definition md5_hexdigest :: "u8 list \<Rightarrow> string" where
  "md5_hexdigest bs = (let p = md5_pad bs in
     case md5_blocks (length p div 64) (0x67452301, 0xefcdab89, 0x98badcfe, 0x10325476) p
       of (a, b, c, d) \<Rightarrow> hex_word32 a @ hex_word32 b @ hex_word32 c @ hex_word32 d)"

subsection \<open>The key of a query\<close>

text \<open>\<^verbatim>\<open>SearchQuery.get_key\<close>:
  \<^verbatim>\<open>plain_key = repr(parameters) + str(query); return hashlib.md5(plain_key.encode("utf-8")).hexdigest()\<close>\<close>

definition get_key :: "string \<Rightarrow> pyval \<Rightarrow> string" where
  "get_key query parameters = md5_hexdigest (encode_utf8 (repr parameters @ query))"

subsection \<open>The table of queries\<close>

text \<open>A row of the table \<^verbatim>\<open>queries\<close>, which is also the dictionary \<^verbatim>\<open>self.data\<close> of a
  \<^verbatim>\<open>SearchQuery\<close>. The constructor's dictionary has no \<^verbatim>\<open>num_rows\<close> and, without a
  parent, no \<^verbatim>\<open>key_parent\<close>: these two are optional.\<close>

record row =
  key :: string
  query :: string
  parameters :: string
  result_file :: string
  status :: string
  timestamp :: int
  is_empty :: bool
  is_finished :: bool
  num_rows :: "int option"
  key_parent :: "string option"

type_synonym db = "row list"

text \<open>\<^verbatim>\<open>Database.fetchone\<close> for a \<^verbatim>\<open>SELECT * FROM queries WHERE ...\<close>: the first row that
  satisfies the condition, \<^verbatim>\<open>None\<close> when there is none.\<close>

definition db_fetchone :: "(row \<Rightarrow> bool) \<Rightarrow> db \<Rightarrow> row option" where
  "db_fetchone cond tbl = find cond tbl"

text \<open>\<^verbatim>\<open>Database.update\<close>: every row that satisfies \<^verbatim>\<open>where\<close> gets the columns of
  \<^verbatim>\<open>data\<close>; the result is \<^verbatim>\<open>cursor.rowcount\<close>, the number of these rows.\<close>

definition db_update :: "(row \<Rightarrow> bool) \<Rightarrow> (row \<Rightarrow> row) \<Rightarrow> db \<Rightarrow> nat \<times> db" where
  "db_update cond set_columns tbl =
     (length (filter cond tbl), map (\<lambda>r. if cond r then set_columns r else r) tbl)"

text \<open>\<^verbatim>\<open>Database.insert\<close>: one more row.\<close>

definition db_insert :: "row \<Rightarrow> db \<Rightarrow> db" where
  "db_insert r tbl = tbl @ [r]"

text \<open>The condition \<^verbatim>\<open>where={"query": self.data["query"], "key": self.data["key"]}\<close>.\<close>

definition where_query_key :: "row \<Rightarrow> row \<Rightarrow> bool" where
  "where_query_key d r = (query r = query d \<and> key r = key d)"

subsection \<open>The result directory\<close>

type_synonym files = "string list"

text \<open>\<^verbatim>\<open>os.path.isfile\<close>\<close>

definition isfile :: "files \<Rightarrow> string \<Rightarrow> bool" where
  "isfile fs p = (p \<in> set fs)"

subsection \<open>SearchQuery\<close>

text \<open>The attributes of a \<^verbatim>\<open>SearchQuery\<close> object: \<^verbatim>\<open>self.folder\<close>, \<^verbatim>\<open>self.key\<close>,
  \<^verbatim>\<open>self.query\<close> and \<^verbatim>\<open>self.data\<close>. The database \<^verbatim>\<open>self.db\<close> is shared with every other
  object and is passed to each method.\<close>

record searchquery =
  folder :: string
  self_key :: string
  self_query :: string
  data :: row

text \<open>The exceptions the class raises, one constructor for each \<^verbatim>\<open>raise\<close>:
  \<^item> \<open>TypeError_invalid_key\<close>: \<^verbatim>\<open>TypeError("SearchQuery() requires a valid query key ...")\<close>,
    the lookup by key found no row;
  \<^item> \<open>TypeError_missing_arguments\<close>: \<^verbatim>\<open>TypeError("SearchQuery() requires either 'key', or
    'parameters' and 'query' to be given")\<close>;
  \<^item> \<open>RuntimeError_finish\<close>: \<^verbatim>\<open>RuntimeError("Cannot finish a finished query again")\<close>;
  \<^item> \<open>RuntimeError_reserve\<close>: \<^verbatim>\<open>RuntimeError("Cannot reserve results file for a finished
    query")\<close>;
  \<^item> \<open>JSONDecodeError\<close>: what \<^verbatim>\<open>json.loads\<close> raises on a malformed document;
  \<^item> \<open>OtherError\<close>: any other exception of a library call.\<close>

datatype error =
    TypeError_invalid_key
  | TypeError_missing_arguments
  | RuntimeError_finish
  | RuntimeError_reserve
  | JSONDecodeError
  | OtherError

text \<open>The path the loop of \<^verbatim>\<open>reserve_result_file\<close> tries for an index:
  \<^verbatim>\<open>self.folder + "/" + file + "-" + str(index) + "." + extension.lower()\<close>\<close>

definition indexed_path :: "string \<Rightarrow> string \<Rightarrow> string \<Rightarrow> nat \<Rightarrow> string" where
  "indexed_path fld base ext index = fld @ ''/'' @ base @ ''-'' @ str_nat index @ ''.'' @ ext"

text \<open>\<^verbatim>\<open>str\<close> is injective on the naturals, so the indexed paths are pairwise different and
  only finitely many of them are files: this is why the loop below stops.\<close>

lemma str_nat_nonempty: "str_nat n \<noteq> []"
  by (subst str_nat.simps) simp

lemma digit_char_inj: "a < 10 \<Longrightarrow> b < 10 \<Longrightarrow> char_of (48 + a :: nat) = char_of (48 + b) \<Longrightarrow> a = b"
proof -
  assume a: "a < 10" and b: "b < 10" and e: "char_of (48 + a :: nat) = char_of (48 + b)"
  from e have "of_char (char_of (48 + a :: nat)) = (of_char (char_of (48 + b)) :: nat)" by simp
  with a b show "a = b" by simp
qed

lemma str_nat_inj: "str_nat n = str_nat m \<Longrightarrow> n = m"
proof (induction n arbitrary: m rule: str_nat.induct)
  case (1 n)
  show ?case
  proof (cases "n < 10")
    case True
    show ?thesis
    proof (cases "m < 10")
      case m: True
      from "1.prems" True m have "char_of (48 + n) = char_of (48 + m)"
        by (simp add: str_nat.simps [of n] str_nat.simps [of m])
      with True m show ?thesis by (rule_tac digit_char_inj)
    next
      case m: False
      from "1.prems" True m have "[char_of (48 + n)] = str_nat (m div 10) @ [char_of (48 + m mod 10)]"
        by (simp add: str_nat.simps [of n] str_nat.simps [of m])
      then have "str_nat (m div 10) = []" by (cases "str_nat (m div 10)") auto
      with str_nat_nonempty show ?thesis by blast
    qed
  next
    case False
    show ?thesis
    proof (cases "m < 10")
      case m: True
      from "1.prems" False m have "str_nat (n div 10) @ [char_of (48 + n mod 10)] = [char_of (48 + m)]"
        by (simp add: str_nat.simps [of n] str_nat.simps [of m])
      then have "str_nat (n div 10) = []" by (cases "str_nat (n div 10)") auto
      with str_nat_nonempty show ?thesis by blast
    next
      case m: False
      from "1.prems" False m
      have e: "str_nat (n div 10) @ [char_of (48 + n mod 10)] = str_nat (m div 10) @ [char_of (48 + m mod 10)]"
        by (simp add: str_nat.simps [of n] str_nat.simps [of m])
      then have e1: "str_nat (n div 10) = str_nat (m div 10)"
        and e2: "char_of (48 + n mod 10) = char_of (48 + m mod 10)" by simp_all
      from "1.IH" [OF False e1] have d: "n div 10 = m div 10" .
      have "n mod 10 = m mod 10" by (rule digit_char_inj [OF _ _ e2]) simp_all
      with d show ?thesis by (metis div_mult_mod_eq)
    qed
  qed
qed

lemma indexed_path_inj: "indexed_path fld base ext i = indexed_path fld base ext j \<Longrightarrow> i = j"
  by (auto simp: indexed_path_def dest: str_nat_inj)

lemma finite_indexed: "finite {j. indexed_path fld base ext j \<in> set fs}"
proof -
  have "inj (indexed_path fld base ext)" by (rule injI) (rule indexed_path_inj)
  then have "finite (indexed_path fld base ext -` set fs)" by (rule finite_vimageI [OF finite_set])
  moreover have "{j. indexed_path fld base ext j \<in> set fs} = indexed_path fld base ext -` set fs" by auto
  ultimately show ?thesis by simp
qed

text \<open>The loop of \<^verbatim>\<open>reserve_result_file\<close>:
  \<^verbatim>\<open>while os.path.isfile(path): path = self.folder + "/" + file + "-" + str(index) + "." + extension.lower(); index += 1\<close>\<close>

function probe :: "files \<Rightarrow> string \<Rightarrow> string \<Rightarrow> string \<Rightarrow> string \<Rightarrow> nat \<Rightarrow> string" where
  "probe fs fld base ext path index =
     (if isfile fs path then probe fs fld base ext (indexed_path fld base ext index) (index + 1)
      else path)"
  by pat_completeness auto
termination
proof (relation "measure (\<lambda>(fs, fld, base, ext, path, index).
    card {j. index \<le> j \<and> indexed_path fld base ext j \<in> set fs} + (if isfile fs path then 1 else 0))")
  show "wf (measure (\<lambda>(fs, fld, base, ext, path, index).
    card {j. index \<le> j \<and> indexed_path fld base ext j \<in> set fs} + (if isfile fs path then 1 else 0)))"
    by simp
next
  fix fs :: files and fld base ext path :: string and index :: nat
  assume p: "isfile fs path"
  let ?A = "{j. index \<le> j \<and> indexed_path fld base ext j \<in> set fs}"
  let ?B = "{j. index + 1 \<le> j \<and> indexed_path fld base ext j \<in> set fs}"
  have finA: "finite ?A" by (rule finite_subset [OF _ finite_indexed [of fld base ext fs]]) auto
  have finB: "finite ?B" by (rule finite_subset [OF _ finite_indexed [of fld base ext fs]]) auto
  have "card ?B + (if isfile fs (indexed_path fld base ext index) then 1 else 0) \<le> card ?A"
  proof (cases "isfile fs (indexed_path fld base ext index)")
    case True
    then have "?A = insert index ?B" by (auto simp: isfile_def le_Suc_eq)
    moreover have "index \<notin> ?B" by simp
    ultimately have "card ?A = Suc (card ?B)" using finB by simp
    with True show ?thesis by simp
  next
    case False
    have "?B \<subseteq> ?A" by auto
    then have "card ?B \<le> card ?A" by (rule card_mono [OF finA])
    with False show ?thesis by simp
  qed
  with p show "((fs, fld, base, ext, indexed_path fld base ext index, index + 1), (fs, fld, base, ext, path, index))
    \<in> measure (\<lambda>(fs, fld, base, ext, path, index).
    card {j. index \<le> j \<and> indexed_path fld base ext j \<in> set fs} + (if isfile fs path then 1 else 0))"
    by simp
qed

declare probe.simps [simp del]

text \<open>\<^verbatim>\<open>SearchQuery.reserve_result_file\<close>\<close>

definition reserve_result_file :: "files \<Rightarrow> db \<Rightarrow> searchquery \<Rightarrow> string \<Rightarrow> (error + bool) \<times> db \<times> searchquery" where
  "reserve_result_file fs tbl self extension =
     (if is_finished (data self) then (Inl RuntimeError_reserve, tbl, self)
      else
        let query_bit = re_sub_slug (lower (replace_space (query (data self))));
            base = query_bit @ ''-'' @ key (data self);
            path = probe fs (folder self) base (lower extension)
                     (folder self @ ''/'' @ base @ ''.'' @ lower extension) 1;
            name = split_pop path;
            (updated, tbl') = db_update (where_query_key (data self)) (\<lambda>r. r\<lparr>result_file := name\<rparr>) tbl
        in (Inr (0 < updated), tbl', self\<lparr>data := (data self)\<lparr>result_file := name\<rparr>\<rparr>))"

text \<open>\<^verbatim>\<open>SearchQuery.__init__(query, parameters, key, db, parent, extension)\<close>. The result
  directory \<open>fld\<close> is \<^verbatim>\<open>get_absolute_folder(config.PATH_DATA)\<close> and \<open>now\<close> is
  \<^verbatim>\<open>int(time.time())\<close>. An argument that may be \<^verbatim>\<open>None\<close> is an option; the parameters are
  \<^verbatim>\<open>None\<close> when they are \<^const>\<open>PNone\<close>. A parent is recorded when it is truthy, that is
  neither \<^verbatim>\<open>None\<close> nor the empty string.\<close>

definition SearchQuery_init ::
  "db \<Rightarrow> files \<Rightarrow> string \<Rightarrow> int \<Rightarrow> string option \<Rightarrow> pyval \<Rightarrow> string option \<Rightarrow> string option \<Rightarrow> string
    \<Rightarrow> (error + searchquery) \<times> db" where
  "SearchQuery_init tbl fs fld now query_arg parameters_arg key_arg parent extension =
     (case key_arg of
        Some k \<Rightarrow>
          (case db_fetchone (\<lambda>r. key r = k) tbl of
             None \<Rightarrow> (Inl TypeError_invalid_key, tbl)
           | Some current \<Rightarrow>
               (Inr \<lparr>folder = fld, self_key = k, self_query = query current, data = current\<rparr>, tbl))
      | None \<Rightarrow>
          (case query_arg of
             None \<Rightarrow> (Inl TypeError_missing_arguments, tbl)
           | Some q \<Rightarrow>
               if parameters_arg = PNone then (Inl TypeError_missing_arguments, tbl)
               else
                 let k = get_key q parameters_arg in
                 (case db_fetchone (\<lambda>r. key r = k \<and> query r = q) tbl of
                    Some current \<Rightarrow>
                      (Inr \<lparr>folder = fld, self_key = k, self_query = q, data = current\<rparr>, tbl)
                  | None \<Rightarrow>
                      let d = \<lparr>key = k, query = q, parameters = json_dumps parameters_arg,
                               result_file = [], status = [], timestamp = now,
                               is_empty = False, is_finished = False, num_rows = None,
                               key_parent = (case parent of None \<Rightarrow> None
                                             | Some p \<Rightarrow> if p = [] then None else Some p)\<rparr>;
                          tbl1 = db_insert d tbl;
                          self = \<lparr>folder = fld, self_key = k, self_query = q, data = d\<rparr>
                      in (case reserve_result_file fs tbl1 self extension of
                            (Inl e, tbl2, self2) \<Rightarrow> (Inl e, tbl2)
                          | (Inr _, tbl2, self2) \<Rightarrow> (Inr self2, tbl2)))))"

text \<open>\<^verbatim>\<open>SearchQuery.check_query_finished\<close>: the path of the results file, \<^verbatim>\<open>'empty_file'\<close> or
  \<^verbatim>\<open>None\<close>.\<close>

definition check_query_finished :: "files \<Rightarrow> searchquery \<Rightarrow> string option" where
  "check_query_finished fs self =
     (if is_finished (data self) \<and> result_file (data self) \<noteq> []
         \<and> isfile fs (folder self @ ''/'' @ result_file (data self))
      then Some (folder self @ ''/'' @ result_file (data self))
      else if is_finished (data self) \<and> is_empty (data self) then Some ''empty_file''
      else None)"

text \<open>\<^verbatim>\<open>SearchQuery.finish(num_rows)\<close>\<close>

definition finish :: "db \<Rightarrow> searchquery \<Rightarrow> int \<Rightarrow> (error + unit) \<times> db \<times> searchquery" where
  "finish tbl self n =
     (if is_finished (data self) then (Inl RuntimeError_finish, tbl, self)
      else
        let (updated, tbl') = db_update (where_query_key (data self))
                                (\<lambda>r. r\<lparr>is_finished := True, num_rows := Some n\<rparr>) tbl
        in (Inr (), tbl', self\<lparr>data := (data self)\<lparr>is_finished := True, num_rows := Some n\<rparr>\<rparr>))"

text \<open>\<^verbatim>\<open>SearchQuery.is_finished()\<close>: \<^verbatim>\<open>self.data["is_finished"] is True\<close>\<close>

definition query_is_finished :: "searchquery \<Rightarrow> bool" where
  "query_is_finished self = (is_finished (data self) = True)"

text \<open>\<^verbatim>\<open>SearchQuery.get_parameters()\<close>. The parser \<^verbatim>\<open>json.loads\<close> is a parameter of the model:
  it returns the parsed value or raises.\<close>

definition get_parameters :: "(string \<Rightarrow> error + pyval) \<Rightarrow> searchquery \<Rightarrow> error + pyval" where
  "get_parameters json_loads self =
     (case json_loads (parameters (data self)) of
        Inr v \<Rightarrow> Inr v
      | Inl e \<Rightarrow> if e = JSONDecodeError then Inr (PDict []) else Inl e)"

text \<open>\<^verbatim>\<open>SearchQuery.set_empty()\<close>\<close>

definition set_empty :: "db \<Rightarrow> searchquery \<Rightarrow> (error + unit) \<times> db \<times> searchquery" where
  "set_empty tbl self =
     (let (updated, tbl') = db_update (where_query_key (data self)) (\<lambda>r. r\<lparr>is_empty := True\<rparr>) tbl
      in (Inr (), tbl', self))"

text \<open>The calls \<^verbatim>\<open>self.finish(n); self.set_empty()\<close> on one object: the second runs when the
  first has returned.\<close>

definition finish_then_set_empty :: "db \<Rightarrow> searchquery \<Rightarrow> int \<Rightarrow> (error + unit) \<times> db \<times> searchquery" where
  "finish_then_set_empty tbl self n =
     (case finish tbl self n of
        (Inl e, tbl1, self1) \<Rightarrow> (Inl e, tbl1, self1)
      | (Inr _, tbl1, self1) \<Rightarrow> set_empty tbl1 self1)"

subsection \<open>Names for what the constructor builds\<close>

text \<open>The file name \<^verbatim>\<open>reserve_result_file\<close> chooses (its local \<^verbatim>\<open>file\<close> after the loop), and
  the dictionary the constructor inserts for a new query.\<close>

definition chosen_name :: "files \<Rightarrow> searchquery \<Rightarrow> string \<Rightarrow> string" where
  "chosen_name fs self extension =
     (let base = re_sub_slug (lower (replace_space (query (data self)))) @ ''-'' @ key (data self)
      in split_pop (probe fs (folder self) base (lower extension)
           (folder self @ ''/'' @ base @ ''.'' @ lower extension) 1))"

definition new_row :: "string \<Rightarrow> pyval \<Rightarrow> string option \<Rightarrow> int \<Rightarrow> row" where
  "new_row q p parent now =
     \<lparr>key = get_key q p, query = q, parameters = json_dumps p, result_file = [], status = [],
      timestamp = now, is_empty = False, is_finished = False, num_rows = None,
      key_parent = (case parent of None \<Rightarrow> None | Some x \<Rightarrow> if x = [] then None else Some x)\<rparr>"




subsection \<open>Example values\<close>

text \<open>A stored query, the object loaded for it, and a stand-in for \<^verbatim>\<open>json.loads\<close> that knows
  the documents \<^verbatim>\<open>{}\<close> and \<^verbatim>\<open>[]\<close> and rejects every other text; the examples below run
  on them.\<close>

definition example_row :: row where
  "example_row = \<lparr>key = ''0123abcd'', query = ''Climate change'', parameters = ''{}'',
     result_file = ''climate-change-0123abcd.csv'', status = [], timestamp = 0,
     is_empty = False, is_finished = False, num_rows = None, key_parent = None\<rparr>"

definition example_query :: searchquery where
  "example_query = \<lparr>folder = ''/data'', self_key = ''0123abcd'', self_query = ''Climate change'',
     data = example_row\<rparr>"

definition example_json_loads :: "string \<Rightarrow> error + pyval" where
  "example_json_loads s = (if s = ''{}'' then Inr (PDict []) else if s = ''[]'' then Inr (PList [])
     else Inl JSONDecodeError)"

definition example_parameters :: pyval where
  "example_parameters = PDict [(''board'', PStr ''news''), (''min_date'', PInt 0), (''max_date'', PInt 0)]"

text \<open>The options of a post-processor, in two insertion orders: the same dictionary for
  Python's \<^verbatim>\<open>==\<close>.\<close>

definition example_options :: pyval where
  "example_options = PDict [(''top'', PStr ''10''), (''top-style'', PStr ''per-item'')]"


section \<open>Properties\<close>

subsection \<open>Reading back an update\<close>

lemma find_map_update:
  assumes "\<And>r. cond (f r) = cond r"
  shows "find cond (map (\<lambda>r. if cond r then f r else r) xs) = map_option f (find cond xs)"
  using assms by (induction xs) auto

lemma db_fetchone_db_update:
  assumes "\<And>r. cond (f r) = cond r"
  shows "db_fetchone cond (snd (db_update cond f tbl)) = map_option f (db_fetchone cond tbl)"
  using assms by (simp add: db_fetchone_def db_update_def find_map_update)

lemma finish_eq:
  "\<not> is_finished (data self) \<Longrightarrow> finish tbl self n =
     (Inr (), map (\<lambda>r. if where_query_key (data self) r then r\<lparr>is_finished := True, num_rows := Some n\<rparr> else r) tbl,
      self\<lparr>data := (data self)\<lparr>is_finished := True, num_rows := Some n\<rparr>\<rparr>)"
  by (simp add: finish_def db_update_def)

subsection \<open>Finishing a query\<close>

text \<open>
  \<^bold>\<open>C2.\<close> For every record that is not finished and every row count \<open>n\<close>, \<open>finish n\<close>
  returns normally, sets \<open>is_finished\<close> and \<open>num_rows = n\<close> in every stored row with the
  record's query and key and in the object, so that \<open>is_finished()\<close> is true afterwards and
  the object's \<open>num_rows\<close> is \<open>n\<close>; reading the stored row back gives the two new values,
  and a second \<open>finish\<close> raises.
\<close>

theorem finish_unfinished_record:
  assumes "\<not> is_finished (data self)"
  shows "\<exists>tbl' self'. finish tbl self n = (Inr (), tbl', self')
    \<and> self' = self\<lparr>data := (data self)\<lparr>is_finished := True, num_rows := Some n\<rparr>\<rparr>
    \<and> query_is_finished self' \<and> num_rows (data self') = Some n
    \<and> tbl' = map (\<lambda>r. if where_query_key (data self) r
                        then r\<lparr>is_finished := True, num_rows := Some n\<rparr> else r) tbl
    \<and> (\<forall>r \<in> set tbl'. where_query_key (data self) r \<longrightarrow> is_finished r \<and> num_rows r = Some n)
    \<and> (\<forall>r. db_fetchone (where_query_key (data self)) tbl = Some r \<longrightarrow>
          db_fetchone (where_query_key (data self)) tbl' = Some (r\<lparr>is_finished := True, num_rows := Some n\<rparr>))
    \<and> finish tbl' self' m = (Inl RuntimeError_finish, tbl', self')"
proof -
  let ?f = "\<lambda>r. r\<lparr>is_finished := True, num_rows := Some n\<rparr>"
  let ?tbl = "map (\<lambda>r. if where_query_key (data self) r then ?f r else r) tbl"
  let ?self = "self\<lparr>data := (data self)\<lparr>is_finished := True, num_rows := Some n\<rparr>\<rparr>"
  have 1: "finish tbl self n = (Inr (), ?tbl, ?self)" using assms by (rule finish_eq)
  have 2: "query_is_finished ?self" "num_rows (data ?self) = Some n"
    by (simp_all add: query_is_finished_def)
  have 3: "\<forall>r \<in> set ?tbl. where_query_key (data self) r \<longrightarrow> is_finished r \<and> num_rows r = Some n"
    by (auto simp: where_query_key_def)
  have inv: "\<And>r. where_query_key (data self) (?f r) = where_query_key (data self) r"
    by (simp add: where_query_key_def)
  have 4: "\<forall>r. db_fetchone (where_query_key (data self)) tbl = Some r \<longrightarrow>
          db_fetchone (where_query_key (data self)) ?tbl = Some (?f r)"
    using db_fetchone_db_update [of "where_query_key (data self)" ?f tbl, OF inv]
    by (simp add: db_update_def)
  have 5: "finish ?tbl ?self m = (Inl RuntimeError_finish, ?tbl, ?self)"
    by (simp add: finish_def)
  from 1 2 3 4 5 show ?thesis by blast
qed

theorem finish_unfinished_record_witness:
  "\<not> is_finished (data example_query)
   \<and> finish [example_row] example_query 42 =
       (Inr (), [example_row\<lparr>is_finished := True, num_rows := Some 42\<rparr>],
        example_query\<lparr>data := example_row\<lparr>is_finished := True, num_rows := Some 42\<rparr>\<rparr>)
   \<and> query_is_finished (example_query\<lparr>data := example_row\<lparr>is_finished := True, num_rows := Some 42\<rparr>\<rparr>)"
proof -
  have h: "\<not> is_finished (data example_query)"
    by (simp add: example_query_def example_row_def)
  from finish_unfinished_record [OF h, of "[example_row]" 42 0] h show ?thesis
    by (auto simp: where_query_key_def example_query_def)
qed

text \<open>
  \<^bold>\<open>C3.\<close> On a record whose \<open>is_finished\<close> is already true, \<open>finish\<close> raises the
  \<open>RuntimeError\<close> "Cannot finish a finished query again" and \<open>reserve_result_file\<close>
  raises the \<open>RuntimeError\<close> "Cannot reserve results file for a finished query" (the
  specification's AlreadyFinishedError); the exception reaches the caller, and neither the
  table nor the object has changed.
\<close>

theorem finished_record_raises:
  assumes "is_finished (data self)"
  shows "finish tbl self n = (Inl RuntimeError_finish, tbl, self)
       \<and> reserve_result_file fs tbl self extension = (Inl RuntimeError_reserve, tbl, self)"
  using assms by (simp add: finish_def reserve_result_file_def)

theorem finished_record_raises_witness:
  "is_finished (data (example_query\<lparr>data := example_row\<lparr>is_finished := True\<rparr>\<rparr>))
   \<and> finish [example_row\<lparr>is_finished := True\<rparr>] (example_query\<lparr>data := example_row\<lparr>is_finished := True\<rparr>\<rparr>) 7
       = (Inl RuntimeError_finish, [example_row\<lparr>is_finished := True\<rparr>],
          example_query\<lparr>data := example_row\<lparr>is_finished := True\<rparr>\<rparr>)
   \<and> reserve_result_file [] [example_row\<lparr>is_finished := True\<rparr>]
         (example_query\<lparr>data := example_row\<lparr>is_finished := True\<rparr>\<rparr>) ''csv''
       = (Inl RuntimeError_reserve, [example_row\<lparr>is_finished := True\<rparr>],
          example_query\<lparr>data := example_row\<lparr>is_finished := True\<rparr>\<rparr>)"
proof -
  have h: "is_finished (data (example_query\<lparr>data := example_row\<lparr>is_finished := True\<rparr>\<rparr>))"
    by simp
  from finished_record_raises [OF h] h show ?thesis by blast
qed

subsection \<open>Reading the parameters\<close>

text \<open>
  \<^bold>\<open>C7.\<close> \<open>get_parameters\<close> parses the stored parameter document and returns the value
  the parser gives; when the parser rejects the document with a \<open>JSONDecodeError\<close>, it
  returns the empty dictionary. It never raises a \<open>JSONDecodeError\<close>.
\<close>

theorem get_parameters_fails_soft:
  "(\<forall>v. json_loads (parameters (data self)) = Inr v \<longrightarrow> get_parameters json_loads self = Inr v)
   \<and> (json_loads (parameters (data self)) = Inl JSONDecodeError \<longrightarrow>
        get_parameters json_loads self = Inr (PDict []))
   \<and> get_parameters json_loads self \<noteq> Inl JSONDecodeError"
  by (auto simp: get_parameters_def split: sum.splits)

theorem get_parameters_fails_soft_witness:
  "get_parameters example_json_loads example_query = Inr (PDict [])
   \<and> example_json_loads (parameters (data (example_query\<lparr>data := example_row\<lparr>parameters := ''{board''\<rparr>\<rparr>))) = Inl JSONDecodeError
   \<and> get_parameters example_json_loads (example_query\<lparr>data := example_row\<lparr>parameters := ''{board''\<rparr>\<rparr>) = Inr (PDict [])"
proof -
  have a: "example_json_loads (parameters (data example_query)) = Inr (PDict [])"
    by (simp add: example_json_loads_def example_query_def example_row_def)
  have b: "example_json_loads (parameters (data (example_query\<lparr>data := example_row\<lparr>parameters := ''{board''\<rparr>\<rparr>))) = Inl JSONDecodeError"
    by (simp add: example_json_loads_def)
  from get_parameters_fails_soft [of example_json_loads example_query] a
  have 1: "get_parameters example_json_loads example_query = Inr (PDict [])" by blast
  from get_parameters_fails_soft [of example_json_loads "example_query\<lparr>data := example_row\<lparr>parameters := ''{board''\<rparr>\<rparr>"] b
  have 2: "get_parameters example_json_loads (example_query\<lparr>data := example_row\<lparr>parameters := ''{board''\<rparr>\<rparr>) = Inr (PDict [])" by blast
  from 1 2 b show ?thesis by blast
qed

subsection \<open>Looking a query up by its key\<close>

text \<open>
  \<^bold>\<open>C8.\<close> Constructing a \<open>SearchQuery\<close> with a key: when no stored row has this key, the
  constructor raises the \<open>TypeError\<close> "requires a valid query key" (the specification's
  NotFoundError) and leaves the table as it is; when a row has it, the lookup finds one,
  the object's key is the requested key, its query text is the stored row's, its data is
  the stored row, and nothing is written.
\<close>

theorem resolve_by_key:
  "((\<forall>r \<in> set tbl. key r \<noteq> k) \<longrightarrow>
      SearchQuery_init tbl fs fld now query_arg parameters_arg (Some k) parent extension
        = (Inl TypeError_invalid_key, tbl))
   \<and> (\<forall>current. db_fetchone (\<lambda>r. key r = k) tbl = Some current \<longrightarrow>
        key current = k \<and> current \<in> set tbl
        \<and> SearchQuery_init tbl fs fld now query_arg parameters_arg (Some k) parent extension
          = (Inr \<lparr>folder = fld, self_key = k, self_query = query current, data = current\<rparr>, tbl))
   \<and> ((\<exists>r \<in> set tbl. key r = k) \<longrightarrow> (\<exists>current. db_fetchone (\<lambda>r. key r = k) tbl = Some current))"
proof (intro conjI allI impI)
  assume "\<forall>r \<in> set tbl. key r \<noteq> k"
  then have "db_fetchone (\<lambda>r. key r = k) tbl = None"
    by (simp add: db_fetchone_def find_None_iff)
  then show "SearchQuery_init tbl fs fld now query_arg parameters_arg (Some k) parent extension
        = (Inl TypeError_invalid_key, tbl)"
    by (simp add: SearchQuery_init_def)
next
  fix current assume c: "db_fetchone (\<lambda>r. key r = k) tbl = Some current"
  then show "key current = k" by (auto simp: db_fetchone_def find_Some_iff)
  from c show "current \<in> set tbl" by (auto simp: db_fetchone_def find_Some_iff)
  from c show "SearchQuery_init tbl fs fld now query_arg parameters_arg (Some k) parent extension
          = (Inr \<lparr>folder = fld, self_key = k, self_query = query current, data = current\<rparr>, tbl)"
    by (simp add: SearchQuery_init_def)
next
  assume "\<exists>r \<in> set tbl. key r = k"
  then show "\<exists>current. db_fetchone (\<lambda>r. key r = k) tbl = Some current"
    by (cases "find (\<lambda>r. key r = k) tbl") (auto simp: db_fetchone_def find_None_iff)
qed

theorem resolve_by_key_witness:
  "SearchQuery_init [example_row] [] ''/data'' 5 None PNone (Some ''ffff'') None ''csv''
     = (Inl TypeError_invalid_key, [example_row])
   \<and> SearchQuery_init [example_row] [] ''/data'' 5 None PNone (Some ''0123abcd'') None ''csv''
     = (Inr example_query, [example_row])"
proof -
  have a: "\<forall>r \<in> set [example_row]. key r \<noteq> ''ffff''" by (simp add: example_row_def)
  have b: "db_fetchone (\<lambda>r. key r = ''0123abcd'') [example_row] = Some example_row"
    by (simp add: db_fetchone_def example_row_def)
  from resolve_by_key [of "[example_row]" "''ffff''" "[]" "''/data''" 5 None PNone None "''csv''"] a
  have 1: "SearchQuery_init [example_row] [] ''/data'' 5 None PNone (Some ''ffff'') None ''csv''
     = (Inl TypeError_invalid_key, [example_row])" by blast
  from resolve_by_key [of "[example_row]" "''0123abcd''" "[]" "''/data''" 5 None PNone None "''csv''"] b
  have 2: "SearchQuery_init [example_row] [] ''/data'' 5 None PNone (Some ''0123abcd'') None ''csv''
     = (Inr \<lparr>folder = ''/data'', self_key = ''0123abcd'', self_query = query example_row, data = example_row\<rparr>, [example_row])" by blast
  have "\<lparr>folder = ''/data'', self_key = ''0123abcd'', self_query = query example_row, data = example_row\<rparr> = example_query"
    by (simp add: example_query_def example_row_def)
  with 1 2 show ?thesis by simp
qed

subsection \<open>Constructing a query from its text and parameters\<close>

lemma reserve_result_file_eq:
  assumes "\<not> is_finished (data self)"
  shows "reserve_result_file fs tbl self extension =
     (Inr (\<exists>r \<in> set tbl. where_query_key (data self) r),
      map (\<lambda>r. if where_query_key (data self) r
                then r\<lparr>result_file := chosen_name fs self extension\<rparr> else r) tbl,
      self\<lparr>data := (data self)\<lparr>result_file := chosen_name fs self extension\<rparr>\<rparr>)"
proof -
  have "(0 < length (filter (where_query_key (data self)) tbl)) = (\<exists>r \<in> set tbl. where_query_key (data self) r)"
    by (simp add: filter_empty_conv)
  with assms show ?thesis
    by (simp add: reserve_result_file_def chosen_name_def db_update_def Let_def)
qed

lemma map_unchanged: "\<forall>r \<in> set xs. \<not> cond r \<Longrightarrow> map (\<lambda>r. if cond r then f r else r) xs = xs"
  by (induction xs) auto

lemma init_existing:
  assumes "p \<noteq> PNone" and "db_fetchone (\<lambda>r. key r = get_key q p \<and> query r = q) tbl = Some current"
  shows "SearchQuery_init tbl fs fld now (Some q) p None parent extension =
     (Inr \<lparr>folder = fld, self_key = get_key q p, self_query = q, data = current\<rparr>, tbl)"
  using assms by (simp add: SearchQuery_init_def)

lemma init_create:
  fixes q :: string and p :: pyval and parent :: "string option" and now :: int
    and fs :: files and fld extension :: string and tbl :: db
  assumes "p \<noteq> PNone" and "db_fetchone (\<lambda>r. key r = get_key q p \<and> query r = q) tbl = None"
  defines "d \<equiv> new_row q p parent now"
  defines "name \<equiv> chosen_name fs \<lparr>folder = fld, self_key = get_key q p, self_query = q, data = d\<rparr> extension"
  shows "SearchQuery_init tbl fs fld now (Some q) p None parent extension =
     (Inr \<lparr>folder = fld, self_key = get_key q p, self_query = q, data = d\<lparr>result_file := name\<rparr>\<rparr>,
      tbl @ [d\<lparr>result_file := name\<rparr>])"
proof -
  let ?self = "\<lparr>folder = fld, self_key = get_key q p, self_query = q, data = d\<rparr>"
  have nf: "\<not> is_finished (data ?self)" by (simp add: d_def new_row_def)
  from assms(2) have none: "\<forall>r \<in> set tbl. \<not> where_query_key d r"
    by (auto simp: db_fetchone_def find_None_iff where_query_key_def d_def new_row_def)
  have self_match: "where_query_key d d" by (simp add: where_query_key_def)
  have "map (\<lambda>r. if where_query_key d r then r\<lparr>result_file := name\<rparr> else r) (tbl @ [d])
        = tbl @ [d\<lparr>result_file := name\<rparr>]"
    using none self_match by (simp add: map_unchanged)
  moreover have "reserve_result_file fs (tbl @ [d]) ?self extension =
     (Inr (\<exists>r \<in> set (tbl @ [d]). where_query_key d r),
      map (\<lambda>r. if where_query_key d r then r\<lparr>result_file := name\<rparr> else r) (tbl @ [d]),
      ?self\<lparr>data := d\<lparr>result_file := name\<rparr>\<rparr>)"
    using reserve_result_file_eq [OF nf, of fs "tbl @ [d]" extension] by (simp add: name_def)
  ultimately have "reserve_result_file fs (db_insert d tbl) ?self extension =
     (Inr True, tbl @ [d\<lparr>result_file := name\<rparr>], ?self\<lparr>data := d\<lparr>result_file := name\<rparr>\<rparr>)"
    using self_match by (simp add: db_insert_def)
  with assms(1,2) show ?thesis
    by (simp add: SearchQuery_init_def Let_def d_def new_row_def)
qed

lemma find_append_new: "find cond xs = None \<Longrightarrow> cond y \<Longrightarrow> find cond (xs @ [y]) = Some y"
  by (induction xs) (auto split: if_splits)

lemma init_resolve:
  assumes "p \<noteq> PNone"
  shows "\<exists>obj tbl'. SearchQuery_init tbl fs fld now (Some q) p None parent extension = (Inr obj, tbl')
    \<and> folder obj = fld \<and> self_key obj = get_key q p \<and> self_query obj = q
    \<and> key (data obj) = get_key q p \<and> query (data obj) = q
    \<and> db_fetchone (\<lambda>r. key r = get_key q p \<and> query r = q) tbl' = Some (data obj)
    \<and> (tbl' = tbl \<or> tbl' = tbl @ [data obj] \<and> key_parent (data obj) = key_parent (new_row q p parent now))"
proof (cases "db_fetchone (\<lambda>r. key r = get_key q p \<and> query r = q) tbl")
  case None
  let ?d = "new_row q p parent now"
  let ?name = "chosen_name fs \<lparr>folder = fld, self_key = get_key q p, self_query = q, data = ?d\<rparr> extension"
  have "db_fetchone (\<lambda>r. key r = get_key q p \<and> query r = q) (tbl @ [?d\<lparr>result_file := ?name\<rparr>])
        = Some (?d\<lparr>result_file := ?name\<rparr>)"
    using None by (simp add: db_fetchone_def find_append_new new_row_def)
  with init_create [OF assms None, of fs fld now parent extension] show ?thesis
    by (simp add: new_row_def)
next
  case (Some current)
  then have "key current = get_key q p \<and> query current = q"
    by (auto simp: db_fetchone_def find_Some_iff)
  with init_existing [OF assms Some, of fs fld now parent extension] Some show ?thesis by simp
qed

lemma init_again:
  assumes "p \<noteq> PNone"
    and "SearchQuery_init tbl fs fld now (Some q) p None parent extension = (Inr obj, tbl')"
  shows "SearchQuery_init tbl' fs2 fld now2 (Some q) p None parent2 extension2 = (Inr obj, tbl')"
proof -
  from init_resolve [OF assms(1), of tbl fs fld now q parent extension] assms(2)
  have f: "db_fetchone (\<lambda>r. key r = get_key q p \<and> query r = q) tbl' = Some (data obj)"
    and o: "folder obj = fld" "self_key obj = get_key q p" "self_query obj = q" by auto
  from o have "\<lparr>folder = fld, self_key = get_key q p, self_query = q, data = data obj\<rparr> = obj" by simp
  with init_existing [OF assms(1) f, of fs2 fld now2 parent2 extension2] show ?thesis by simp
qed


text \<open>
  \<^bold>\<open>C1.\<close> Resolve-or-create is idempotent. For every query text and parameters (not
  \<open>None\<close>), the constructor returns a record; constructing again with the same arguments,
  at any later time and whatever files exist by then, returns the same record with the
  same key and leaves the table as the first call left it; the record's data is the stored
  row, and the first call added at most this one row.
\<close>

theorem resolve_or_create_idempotent:
  assumes "p \<noteq> PNone"
  shows "\<exists>obj tbl'.
      SearchQuery_init tbl fs fld now (Some q) p None parent extension = (Inr obj, tbl')
    \<and> SearchQuery_init tbl' fs2 fld now2 (Some q) p None parent extension = (Inr obj, tbl')
    \<and> self_key obj = get_key q p
    \<and> db_fetchone (\<lambda>r. key r = get_key q p \<and> query r = q) tbl' = Some (data obj)
    \<and> (tbl' = tbl \<or> tbl' = tbl @ [data obj])"
proof -
  from init_resolve [OF assms, of tbl fs fld now q parent extension]
  obtain obj tbl' where
    1: "SearchQuery_init tbl fs fld now (Some q) p None parent extension = (Inr obj, tbl')"
    and 2: "self_key obj = get_key q p"
    and 3: "db_fetchone (\<lambda>r. key r = get_key q p \<and> query r = q) tbl' = Some (data obj)"
    and 4: "tbl' = tbl \<or> tbl' = tbl @ [data obj]"
    by blast
  from init_again [OF assms 1]
  have "SearchQuery_init tbl' fs2 fld now2 (Some q) p None parent extension = (Inr obj, tbl')" .
  with 1 2 3 4 show ?thesis by blast
qed

theorem resolve_or_create_idempotent_witness:
  "example_parameters \<noteq> PNone
   \<and> (\<exists>obj tbl'.
      SearchQuery_init [] [] ''/data'' 100 (Some ''climate change'') example_parameters None None ''csv'' = (Inr obj, tbl')
    \<and> SearchQuery_init tbl' [''/data/x.csv''] ''/data'' 200 (Some ''climate change'') example_parameters None None ''csv'' = (Inr obj, tbl')
    \<and> self_key obj = get_key ''climate change'' example_parameters
    \<and> length tbl' = 1)"
proof -
  have h: "example_parameters \<noteq> PNone" by (simp add: example_parameters_def)
  from resolve_or_create_idempotent [OF h, of "[]" "[]" "''/data''" 100 "''climate change''" None "''csv''" "[''/data/x.csv'']" 200]
  obtain obj tbl' where
    1: "SearchQuery_init [] [] ''/data'' 100 (Some ''climate change'') example_parameters None None ''csv'' = (Inr obj, tbl')"
    and 2: "SearchQuery_init tbl' [''/data/x.csv''] ''/data'' 200 (Some ''climate change'') example_parameters None None ''csv'' = (Inr obj, tbl')"
    and 3: "self_key obj = get_key ''climate change'' example_parameters"
    and 4: "db_fetchone (\<lambda>r. key r = get_key ''climate change'' example_parameters \<and> query r = ''climate change'') tbl' = Some (data obj)"
    and 5: "tbl' = [] \<or> tbl' = [] @ [data obj]"
    by blast
  from 4 5 have "length tbl' = 1" by (auto simp: db_fetchone_def)
  with h 1 2 3 show ?thesis by blast
qed

subsection \<open>Computing keys\<close>

text \<open>MD5 on three short messages, each one block long: the padded block, its sixteen
  words, the state after each of the four rounds, and the digest. The digests are those
  \<^verbatim>\<open>hashlib.md5\<close> prints for the same bytes.\<close>

lemma replicate_numeral_Cons: "replicate (numeral k) x = x # replicate (pred_numeral k) x"
proof -
  have "replicate (Suc (pred_numeral k)) x = x # replicate (pred_numeral k) x"
    by (rule replicate.simps(2))
  then show ?thesis unfolding numeral_eq_Suc [of k, symmetric] .
qed

lemma le_bytes_numeral: "le_bytes (numeral k) v = v mod 256 # le_bytes (pred_numeral k) (v div 256)"
proof -
  have "le_bytes (Suc (pred_numeral k)) v = v mod 256 # le_bytes (pred_numeral k) (v div 256)"
    by (rule le_bytes.simps(2))
  then show ?thesis unfolding numeral_eq_Suc [of k, symmetric] .
qed

lemma block_words_numeral:
  "block_words (numeral k) bs = le_word32 (take 4 bs) # block_words (pred_numeral k) (drop 4 bs)"
proof -
  have "block_words (Suc (pred_numeral k)) bs
        = le_word32 (take 4 bs) # block_words (pred_numeral k) (drop 4 bs)"
    by (rule block_words.simps(2))
  then show ?thesis unfolding numeral_eq_Suc [of k, symmetric] .
qed

lemma md5_blocks_numeral:
  "md5_blocks (numeral k) st bs = md5_blocks (pred_numeral k) (md5_block st (take 64 bs)) (drop 64 bs)"
proof -
  have "md5_blocks (Suc (pred_numeral k)) st bs
        = md5_blocks (pred_numeral k) (md5_block st (take 64 bs)) (drop 64 bs)"
    by (rule md5_blocks.simps(2))
  then show ?thesis unfolding numeral_eq_Suc [of k, symmetric] .
qed

lemma md5_example_1:
  "md5_hexdigest [123, 39, 116, 111, 112, 39, 58, 32, 39, 49, 48, 39, 44, 32, 39, 116, 111, 112, 45, 115, 116, 121, 108, 101, 39, 58, 32, 39, 112, 101, 114, 45, 105, 116, 101, 109, 39, 125, 118, 101, 99, 116, 111, 114, 45, 114, 97, 110, 107, 101, 114]
     = ''b455b85978c8b865b424c5753dabd4f1''"
proof -
  let ?m = "[1869883259, 540682096, 657469735, 1948721196, 1932357743, 1701607796, 656423463, 762471792, 1835365481, 1702264103, 1919906915, 1851879981, 2154980715, 0, 408, 0]"
  have pad: "md5_pad [123, 39, 116, 111, 112, 39, 58, 32, 39, 49, 48, 39, 44, 32, 39, 116, 111, 112, 45, 115, 116, 121, 108, 101, 39, 58, 32, 39, 112, 101, 114, 45, 105, 116, 101, 109, 39, 125, 118, 101, 99, 116, 111, 114, 45, 114, 97, 110, 107, 101, 114]
     = [123, 39, 116, 111, 112, 39, 58, 32, 39, 49, 48, 39, 44, 32, 39, 116, 111, 112, 45, 115, 116, 121, 108, 101, 39, 58, 32, 39, 112, 101, 114, 45, 105, 116, 101, 109, 39, 125, 118, 101, 99, 116, 111, 114, 45, 114, 97, 110, 107, 101, 114, 128, 0, 0, 0, 0, 152, 1, 0, 0, 0, 0, 0, 0]"
    by (simp add: md5_pad_def replicate_numeral_Cons le_bytes_numeral)
  have words: "block_words 16 [123, 39, 116, 111, 112, 39, 58, 32, 39, 49, 48, 39, 44, 32, 39, 116, 111, 112, 45, 115, 116, 121, 108, 101, 39, 58, 32, 39, 112, 101, 114, 45, 105, 116, 101, 109, 39, 125, 118, 101, 99, 116, 111, 114, 45, 114, 97, 110, 107, 101, 114, 128, 0, 0, 0, 0, 152, 1, 0, 0, 0, 0, 0, 0]
     = ?m"
    by (simp add: block_words_numeral)
  have r1: "foldl (md5_op md5_F ?m) (0x67452301, 0xefcdab89, 0x98badcfe, 0x10325476) md5_round1
     = (1120974253, 931654082, 908432029, 3910170164)"
    by (simp add: md5_round1_def md5_F_def rotl32_def add32_def not32_def)
  have r2: "foldl (md5_op md5_G ?m) (1120974253, 931654082, 908432029, 3910170164) md5_round2
     = (3753377766, 3589455330, 1161670469, 356595287)"
    by (simp add: md5_round2_def md5_G_def rotl32_def add32_def not32_def)
  have r3: "foldl (md5_op md5_H ?m) (3753377766, 3589455330, 1161670469, 356595287) md5_round3
     = (1238372082, 599513977, 2406155113, 4090877046)"
    by (simp add: md5_round3_def md5_H_def rotl32_def add32_def)
  have r4: "foldl (md5_op md5_I ?m) (1238372082, 599513977, 2406155113, 4090877046) md5_round4
     = (4067635891, 1978342639, 3708438454, 3785512647)"
    by (simp add: md5_round4_def md5_I_def rotl32_def add32_def not32_def)
  have rounds: "md5_rounds ?m (0x67452301, 0xefcdab89, 0x98badcfe, 0x10325476)
     = (4067635891, 1978342639, 3708438454, 3785512647)"
    unfolding md5_rounds_def r1 r2 r3 r4 by (rule refl)
  have block: "md5_block (0x67452301, 0xefcdab89, 0x98badcfe, 0x10325476) [123, 39, 116, 111, 112, 39, 58, 32, 39, 49, 48, 39, 44, 32, 39, 116, 111, 112, 45, 115, 116, 121, 108, 101, 39, 58, 32, 39, 112, 101, 114, 45, 105, 116, 101, 109, 39, 125, 118, 101, 99, 116, 111, 114, 45, 114, 97, 110, 107, 101, 114, 128, 0, 0, 0, 0, 152, 1, 0, 0, 0, 0, 0, 0]
     = (1505252788, 1706608760, 1975854260, 4057246525)"
    unfolding md5_block.simps words rounds by (simp add: add32_def)
  have hex: "hex_word32 1505252788 @ hex_word32 1706608760 @ hex_word32 1975854260 @ hex_word32 4057246525
     = ''b455b85978c8b865b424c5753dabd4f1''"
    by (simp add: hex_word32_def hex_byte_def hex_digit_def le_bytes_numeral)
  have whole: "take 64 [123, 39, 116, 111, 112, 39, 58, 32, 39, 49, 48, 39, 44, 32, 39, 116, 111, 112, 45, 115, 116, 121, 108, 101, 39, 58, 32, 39, 112, 101, 114, 45, 105, 116, 101, 109, 39, 125, 118, 101, 99, 116, 111, 114, 45, 114, 97, 110, 107, 101, 114, 128, 0, 0, 0, 0, 152, 1, 0, 0, 0, 0, 0, 0]
     = [123, 39, 116, 111, 112, 39, 58, 32, 39, 49, 48, 39, 44, 32, 39, 116, 111, 112, 45, 115, 116, 121, 108, 101, 39, 58, 32, 39, 112, 101, 114, 45, 105, 116, 101, 109, 39, 125, 118, 101, 99, 116, 111, 114, 45, 114, 97, 110, 107, 101, 114, 128, 0, 0, 0, 0, 152, 1, 0, 0, 0, 0, 0, 0]"
    by simp
  have blocks: "md5_blocks (Suc 0) (0x67452301, 0xefcdab89, 0x98badcfe, 0x10325476) [123, 39, 116, 111, 112, 39, 58, 32, 39, 49, 48, 39, 44, 32, 39, 116, 111, 112, 45, 115, 116, 121, 108, 101, 39, 58, 32, 39, 112, 101, 114, 45, 105, 116, 101, 109, 39, 125, 118, 101, 99, 116, 111, 114, 45, 114, 97, 110, 107, 101, 114, 128, 0, 0, 0, 0, 152, 1, 0, 0, 0, 0, 0, 0]
     = (1505252788, 1706608760, 1975854260, 4057246525)"
    by (simp only: md5_blocks.simps whole block)
  have len: "length [123, 39, 116, 111, 112, 39, 58, 32, 39, 49, 48, 39, 44, 32, 39, 116, 111, 112, 45, 115, 116, 121, 108, 101, 39, 58, 32, 39, 112, 101, 114, 45, 105, 116, 101, 109, 39, 125, 118, 101, 99, 116, 111, 114, 45, 114, 97, 110, 107, 101, 114, 128, 0, 0, 0, 0, 152, 1, 0, 0, 0, 0, 0, 0] div 64 = Suc 0"
    by simp
  show ?thesis
    unfolding md5_hexdigest_def Let_def pad len blocks by (simp only: prod.case hex)
qed

lemma encode_example_1:
  "encode_utf8 (repr example_options @ ''vector-ranker'')
     = [123, 39, 116, 111, 112, 39, 58, 32, 39, 49, 48, 39, 44, 32, 39, 116, 111, 112, 45, 115, 116, 121, 108, 101, 39, 58, 32, 39, 112, 101, 114, 45, 105, 116, 101, 109, 39, 125, 118, 101, 99, 116, 111, 114, 45, 114, 97, 110, 107, 101, 114]"
  by (simp add: example_options_def repr_str_def repr_char_def printable_def encode_utf8_def utf8_char_def Let_def)

lemma get_key_example_1: "get_key ''vector-ranker'' example_options = ''b455b85978c8b865b424c5753dabd4f1''"
  unfolding get_key_def encode_example_1 by (rule md5_example_1)




lemma md5_example_3:
  "md5_hexdigest [123, 39, 116, 111, 112, 39, 58, 32, 39, 49, 48, 39, 44, 32, 39, 116, 111, 112, 45, 115, 116, 121, 108, 101, 39, 58, 32, 39, 112, 101, 114, 45, 105, 116, 101, 109, 39, 125, 116, 111, 112, 45, 118, 101, 99, 116, 111, 114, 115]
     = ''3b6b09c0c82ec2a95dc18160f54ef320''"
proof -
  let ?m = "[1869883259, 540682096, 657469735, 1948721196, 1932357743, 1701607796, 656423463, 762471792, 1835365481, 1869905191, 1702243696, 1919906915, 32883, 0, 392, 0]"
  have pad: "md5_pad [123, 39, 116, 111, 112, 39, 58, 32, 39, 49, 48, 39, 44, 32, 39, 116, 111, 112, 45, 115, 116, 121, 108, 101, 39, 58, 32, 39, 112, 101, 114, 45, 105, 116, 101, 109, 39, 125, 116, 111, 112, 45, 118, 101, 99, 116, 111, 114, 115]
     = [123, 39, 116, 111, 112, 39, 58, 32, 39, 49, 48, 39, 44, 32, 39, 116, 111, 112, 45, 115, 116, 121, 108, 101, 39, 58, 32, 39, 112, 101, 114, 45, 105, 116, 101, 109, 39, 125, 116, 111, 112, 45, 118, 101, 99, 116, 111, 114, 115, 128, 0, 0, 0, 0, 0, 0, 136, 1, 0, 0, 0, 0, 0, 0]"
    by (simp add: md5_pad_def replicate_numeral_Cons le_bytes_numeral)
  have words: "block_words 16 [123, 39, 116, 111, 112, 39, 58, 32, 39, 49, 48, 39, 44, 32, 39, 116, 111, 112, 45, 115, 116, 121, 108, 101, 39, 58, 32, 39, 112, 101, 114, 45, 105, 116, 101, 109, 39, 125, 116, 111, 112, 45, 118, 101, 99, 116, 111, 114, 115, 128, 0, 0, 0, 0, 0, 0, 136, 1, 0, 0, 0, 0, 0, 0]
     = ?m"
    by (simp add: block_words_numeral)
  have r1: "foldl (md5_op md5_F ?m) (0x67452301, 0xefcdab89, 0x98badcfe, 0x10325476) md5_round1
     = (1775260122, 3775361105, 3363695785, 3011153689)"
    by (simp add: md5_round1_def md5_F_def rotl32_def add32_def not32_def)
  have r2: "foldl (md5_op md5_G ?m) (1775260122, 3775361105, 3363695785, 3011153689) md5_round2
     = (2743104361, 361220431, 2779270369, 2894517684)"
    by (simp add: md5_round2_def md5_G_def rotl32_def add32_def not32_def)
  have r3: "foldl (md5_op md5_H ?m) (2743104361, 361220431, 2779270369, 2894517684) md5_round3
     = (577172709, 3341129674, 2771103142, 4028274247)"
    by (simp add: md5_round3_def md5_H_def rotl32_def add32_def)
  have r4: "foldl (md5_op md5_I ?m) (577172709, 3341129674, 2771103142, 4028274247) md5_round4
     = (1489258554, 3119809343, 3351700575, 281082495)"
    by (simp add: md5_round4_def md5_I_def rotl32_def add32_def not32_def)
  have rounds: "md5_rounds ?m (0x67452301, 0xefcdab89, 0x98badcfe, 0x10325476)
     = (1489258554, 3119809343, 3351700575, 281082495)"
    unfolding md5_rounds_def r1 r2 r3 r4 by (rule refl)
  have block: "md5_block (0x67452301, 0xefcdab89, 0x98badcfe, 0x10325476) [123, 39, 116, 111, 112, 39, 58, 32, 39, 49, 48, 39, 44, 32, 39, 116, 111, 112, 45, 115, 116, 121, 108, 101, 39, 58, 32, 39, 112, 101, 114, 45, 105, 116, 101, 109, 39, 125, 116, 111, 112, 45, 118, 101, 99, 116, 111, 114, 115, 128, 0, 0, 0, 0, 0, 0, 136, 1, 0, 0, 0, 0, 0, 0]
     = (3221842747, 2848075464, 1619116381, 552816373)"
    unfolding md5_block.simps words rounds by (simp add: add32_def)
  have hex: "hex_word32 3221842747 @ hex_word32 2848075464 @ hex_word32 1619116381 @ hex_word32 552816373
     = ''3b6b09c0c82ec2a95dc18160f54ef320''"
    by (simp add: hex_word32_def hex_byte_def hex_digit_def le_bytes_numeral)
  have whole: "take 64 [123, 39, 116, 111, 112, 39, 58, 32, 39, 49, 48, 39, 44, 32, 39, 116, 111, 112, 45, 115, 116, 121, 108, 101, 39, 58, 32, 39, 112, 101, 114, 45, 105, 116, 101, 109, 39, 125, 116, 111, 112, 45, 118, 101, 99, 116, 111, 114, 115, 128, 0, 0, 0, 0, 0, 0, 136, 1, 0, 0, 0, 0, 0, 0]
     = [123, 39, 116, 111, 112, 39, 58, 32, 39, 49, 48, 39, 44, 32, 39, 116, 111, 112, 45, 115, 116, 121, 108, 101, 39, 58, 32, 39, 112, 101, 114, 45, 105, 116, 101, 109, 39, 125, 116, 111, 112, 45, 118, 101, 99, 116, 111, 114, 115, 128, 0, 0, 0, 0, 0, 0, 136, 1, 0, 0, 0, 0, 0, 0]"
    by simp
  have blocks: "md5_blocks (Suc 0) (0x67452301, 0xefcdab89, 0x98badcfe, 0x10325476) [123, 39, 116, 111, 112, 39, 58, 32, 39, 49, 48, 39, 44, 32, 39, 116, 111, 112, 45, 115, 116, 121, 108, 101, 39, 58, 32, 39, 112, 101, 114, 45, 105, 116, 101, 109, 39, 125, 116, 111, 112, 45, 118, 101, 99, 116, 111, 114, 115, 128, 0, 0, 0, 0, 0, 0, 136, 1, 0, 0, 0, 0, 0, 0]
     = (3221842747, 2848075464, 1619116381, 552816373)"
    by (simp only: md5_blocks.simps whole block)
  have len: "length [123, 39, 116, 111, 112, 39, 58, 32, 39, 49, 48, 39, 44, 32, 39, 116, 111, 112, 45, 115, 116, 121, 108, 101, 39, 58, 32, 39, 112, 101, 114, 45, 105, 116, 101, 109, 39, 125, 116, 111, 112, 45, 118, 101, 99, 116, 111, 114, 115, 128, 0, 0, 0, 0, 0, 0, 136, 1, 0, 0, 0, 0, 0, 0] div 64 = Suc 0"
    by simp
  show ?thesis
    unfolding md5_hexdigest_def Let_def pad len blocks by (simp only: prod.case hex)
qed

lemma encode_example_3:
  "encode_utf8 (repr example_options @ ''top-vectors'')
     = [123, 39, 116, 111, 112, 39, 58, 32, 39, 49, 48, 39, 44, 32, 39, 116, 111, 112, 45, 115, 116, 121, 108, 101, 39, 58, 32, 39, 112, 101, 114, 45, 105, 116, 101, 109, 39, 125, 116, 111, 112, 45, 118, 101, 99, 116, 111, 114, 115]"
  by (simp add: example_options_def repr_str_def repr_char_def printable_def encode_utf8_def utf8_char_def Let_def)

lemma get_key_example_3: "get_key ''top-vectors'' example_options = ''3b6b09c0c82ec2a95dc18160f54ef320''"
  unfolding get_key_def encode_example_3 by (rule md5_example_3)














text \<open>
  \<^bold>\<open>C9 (amended).\<close> The key is the MD5 digest of \<open>repr(parameters)\<close> followed by the query text:
  neither the parent nor the extension enters it. Two constructions with the same text and
  parameters get the same key whatever their parents and extensions are, and after the
  first one the second finds the first one's row and returns that record. The type of a
  post-processor enters the key only where it is the query text.
\<close>

theorem key_ignores_parent:
  assumes "p \<noteq> PNone"
  shows "\<exists>obj tbl' obj2 tbl2.
      SearchQuery_init tbl fs fld now (Some q) p None parent1 extension1 = (Inr obj, tbl')
    \<and> SearchQuery_init tbl fs fld now (Some q) p None parent2 extension2 = (Inr obj2, tbl2)
    \<and> self_key obj = md5_hexdigest (encode_utf8 (repr p @ q))
    \<and> key (data obj) = md5_hexdigest (encode_utf8 (repr p @ q))
    \<and> self_key obj2 = self_key obj \<and> key (data obj2) = key (data obj)
    \<and> SearchQuery_init tbl' fs2 fld now2 (Some q) p None parent2 extension2 = (Inr obj, tbl')"
proof -
  from init_resolve [OF assms, of tbl fs fld now q parent1 extension1]
  obtain obj tbl' where
    1: "SearchQuery_init tbl fs fld now (Some q) p None parent1 extension1 = (Inr obj, tbl')"
    and 2: "self_key obj = get_key q p" "key (data obj) = get_key q p"
    by blast
  from init_resolve [OF assms, of tbl fs fld now q parent2 extension2]
  obtain obj2 tbl2 where
    3: "SearchQuery_init tbl fs fld now (Some q) p None parent2 extension2 = (Inr obj2, tbl2)"
    and 4: "self_key obj2 = get_key q p" "key (data obj2) = get_key q p"
    by blast
  from init_again [OF assms 1]
  have 5: "SearchQuery_init tbl' fs2 fld now2 (Some q) p None parent2 extension2 = (Inr obj, tbl')" .
  have k: "get_key q p = md5_hexdigest (encode_utf8 (repr p @ q))" by (rule get_key_def)
  from 2 4 have 6: "self_key obj = md5_hexdigest (encode_utf8 (repr p @ q))"
    "key (data obj) = md5_hexdigest (encode_utf8 (repr p @ q))"
    "self_key obj2 = self_key obj" "key (data obj2) = key (data obj)"
    unfolding k by simp_all
  show ?thesis
    by (intro exI conjI) (rule 1, rule 3, rule 6(1), rule 6(2), rule 6(3), rule 6(4), rule 5)
qed

theorem key_ignores_parent_witness:
  "example_options \<noteq> PNone
   \<and> (\<exists>obj tbl'.
      SearchQuery_init [] [] ''/data'' 100 (Some ''vector-ranker'') example_options None (Some ''parent-a'') ''csv''
        = (Inr obj, tbl')
    \<and> self_key obj = ''b455b85978c8b865b424c5753dabd4f1''
    \<and> key_parent (data obj) = Some ''parent-a''
    \<and> SearchQuery_init tbl' [] ''/data'' 200 (Some ''vector-ranker'') example_options None (Some ''parent-b'') ''zip''
        = (Inr obj, tbl'))"
proof -
  have h: "example_options \<noteq> PNone" by (simp add: example_options_def)
  have none: "db_fetchone (\<lambda>r. key r = get_key ''vector-ranker'' example_options \<and> query r = ''vector-ranker'') [] = None"
    by (simp add: db_fetchone_def)
  from key_ignores_parent [OF h, of "[]" "[]" "''/data''" 100 "''vector-ranker''" "Some ''parent-a''" "''csv''"
      "Some ''parent-b''" "''zip''" "[]" 200]
  obtain obj tbl' where
    1: "SearchQuery_init [] [] ''/data'' 100 (Some ''vector-ranker'') example_options None (Some ''parent-a'') ''csv''
          = (Inr obj, tbl')"
    and 2: "self_key obj = md5_hexdigest (encode_utf8 (repr example_options @ ''vector-ranker''))"
    and 3: "SearchQuery_init tbl' [] ''/data'' 200 (Some ''vector-ranker'') example_options None (Some ''parent-b'') ''zip''
          = (Inr obj, tbl')"
    by blast
  from 2 have 4: "self_key obj = ''b455b85978c8b865b424c5753dabd4f1''"
    unfolding get_key_def [symmetric] get_key_example_1 .
  from 1 init_create [OF h none, of "[]" "''/data''" 100 "Some ''parent-a''" "''csv''"]
  have 5: "key_parent (data obj) = Some ''parent-a''" by (auto simp: new_row_def)
  have "\<exists>obj tbl'.
      SearchQuery_init [] [] ''/data'' 100 (Some ''vector-ranker'') example_options None (Some ''parent-a'') ''csv''
        = (Inr obj, tbl')
    \<and> self_key obj = ''b455b85978c8b865b424c5753dabd4f1''
    \<and> key_parent (data obj) = Some ''parent-a''
    \<and> SearchQuery_init tbl' [] ''/data'' 200 (Some ''vector-ranker'') example_options None (Some ''parent-b'') ''zip''
        = (Inr obj, tbl')"
    by (intro exI conjI) (rule 1, rule 4, rule 5, rule 3)
  with h show ?thesis by (rule conjI)
qed

text \<open>
  The claim as first stated fails for analyses of different types that carry their type
  as query text: under one parent and with the same parameters, \<open>vector-ranker\<close> and
  \<open>top-vectors\<close> get two keys and two rows.
\<close>

theorem key_differs_by_type_counterexample:
  "get_key ''vector-ranker'' example_options = ''b455b85978c8b865b424c5753dabd4f1''
   \<and> get_key ''top-vectors'' example_options = ''3b6b09c0c82ec2a95dc18160f54ef320''
   \<and> get_key ''vector-ranker'' example_options \<noteq> get_key ''top-vectors'' example_options
   \<and> (\<exists>obj1 tbl1 obj2 tbl2.
        SearchQuery_init [] [] ''/data'' 100 (Some ''vector-ranker'') example_options None (Some ''parent-a'') ''csv''
          = (Inr obj1, tbl1)
      \<and> SearchQuery_init tbl1 [] ''/data'' 200 (Some ''top-vectors'') example_options None (Some ''parent-a'') ''csv''
          = (Inr obj2, tbl2)
      \<and> self_key obj1 = ''b455b85978c8b865b424c5753dabd4f1''
      \<and> self_key obj2 = ''3b6b09c0c82ec2a95dc18160f54ef320''
      \<and> length tbl2 = 2)"
proof -
  have h: "example_options \<noteq> PNone" by (simp add: example_options_def)
  have d: "''b455b85978c8b865b424c5753dabd4f1'' \<noteq> ''3b6b09c0c82ec2a95dc18160f54ef320''" by simp
  have n: "get_key ''vector-ranker'' example_options \<noteq> get_key ''top-vectors'' example_options"
    unfolding get_key_example_1 get_key_example_3 by (rule d)
  from init_resolve [OF h, of "[]" "[]" "''/data''" 100 "''vector-ranker''" "Some ''parent-a''" "''csv''"]
  obtain obj1 tbl1 where
    a1: "SearchQuery_init [] [] ''/data'' 100 (Some ''vector-ranker'') example_options None (Some ''parent-a'') ''csv''
          = (Inr obj1, tbl1)"
    and a2: "self_key obj1 = get_key ''vector-ranker'' example_options"
    and a3: "query (data obj1) = ''vector-ranker''"
    and a4: "db_fetchone (\<lambda>r. key r = get_key ''vector-ranker'' example_options \<and> query r = ''vector-ranker'') tbl1
          = Some (data obj1)"
    and a5: "tbl1 = [] \<or> tbl1 = [] @ [data obj1] \<and> key_parent (data obj1)
          = key_parent (new_row ''vector-ranker'' example_options (Some ''parent-a'') 100)"
    by blast
  from a4 a5 have t1: "tbl1 = [data obj1]" by (auto simp: db_fetchone_def)
  from init_resolve [OF h, of tbl1 "[]" "''/data''" 200 "''top-vectors''" "Some ''parent-a''" "''csv''"]
  obtain obj2 tbl2 where
    b1: "SearchQuery_init tbl1 [] ''/data'' 200 (Some ''top-vectors'') example_options None (Some ''parent-a'') ''csv''
          = (Inr obj2, tbl2)"
    and b2: "self_key obj2 = get_key ''top-vectors'' example_options"
    and b4: "db_fetchone (\<lambda>r. key r = get_key ''top-vectors'' example_options \<and> query r = ''top-vectors'') tbl2
          = Some (data obj2)"
    and b5: "tbl2 = tbl1 \<or> tbl2 = tbl1 @ [data obj2] \<and> key_parent (data obj2)
          = key_parent (new_row ''top-vectors'' example_options (Some ''parent-a'') 200)"
    by blast
  have "tbl2 \<noteq> tbl1"
  proof
    assume "tbl2 = tbl1"
    with b4 t1 have "query (data obj1) = ''top-vectors''"
      by (auto simp: db_fetchone_def split: if_splits)
    with a3 show False by simp
  qed
  with b5 t1 have len: "length tbl2 = 2" by auto
  from a2 have k1: "self_key obj1 = ''b455b85978c8b865b424c5753dabd4f1''" unfolding get_key_example_1 .
  from b2 have k3: "self_key obj2 = ''3b6b09c0c82ec2a95dc18160f54ef320''" unfolding get_key_example_3 .
  have "\<exists>obj1 tbl1 obj2 tbl2.
        SearchQuery_init [] [] ''/data'' 100 (Some ''vector-ranker'') example_options None (Some ''parent-a'') ''csv''
          = (Inr obj1, tbl1)
      \<and> SearchQuery_init tbl1 [] ''/data'' 200 (Some ''top-vectors'') example_options None (Some ''parent-a'') ''csv''
          = (Inr obj2, tbl2)
      \<and> self_key obj1 = ''b455b85978c8b865b424c5753dabd4f1''
      \<and> self_key obj2 = ''3b6b09c0c82ec2a95dc18160f54ef320''
      \<and> length tbl2 = 2"
    by (intro exI conjI) (rule a1, rule b1, rule k1, rule k3, rule len)
  with n show ?thesis
    by (intro conjI) (rule get_key_example_1, rule get_key_example_3)
qed

subsection \<open>The three answers of check_query_finished\<close>

lemma find_map_inv:
  assumes "\<And>r. cond (f r) = cond r"
  shows "find cond (map f xs) = map_option f (find cond xs)"
  using assms by (induction xs) auto

lemma set_empty_eq:
  "set_empty tbl self =
     (Inr (), map (\<lambda>r. if where_query_key (data self) r then r\<lparr>is_empty := True\<rparr> else r) tbl, self)"
  unfolding set_empty_def db_update_def by simp

lemma finish_then_set_empty_eq:
  assumes "\<not> is_finished (data self)"
  shows "finish_then_set_empty tbl self n =
     (Inr (),
      map (\<lambda>r. if where_query_key (data self) r then r\<lparr>is_empty := True\<rparr> else r)
        (map (\<lambda>r. if where_query_key (data self) r
                   then r\<lparr>is_finished := True, num_rows := Some n\<rparr> else r) tbl),
      self\<lparr>data := (data self)\<lparr>is_finished := True, num_rows := Some n\<rparr>\<rparr>)"
proof -
  have "where_query_key (data (self\<lparr>data := (data self)\<lparr>is_finished := True, num_rows := Some n\<rparr>\<rparr>))
        = where_query_key (data self)"
    by (rule ext) (simp add: where_query_key_def)
  with assms show ?thesis
    by (simp add: finish_then_set_empty_def finish_eq set_empty_eq)
qed

lemma reload_after_finish_set_empty:
  assumes "db_fetchone (\<lambda>r. key r = key d) tbl = Some stored" and "query stored = query d"
  shows "db_fetchone (\<lambda>r. key r = key d)
     (map (\<lambda>r. if where_query_key d r then r\<lparr>is_empty := True\<rparr> else r)
        (map (\<lambda>r. if where_query_key d r
                   then r\<lparr>is_finished := True, num_rows := Some n\<rparr> else r) tbl))
     = Some (stored\<lparr>is_finished := True, num_rows := Some n, is_empty := True\<rparr>)"
proof -
  let ?g1 = "\<lambda>r. if where_query_key d r then r\<lparr>is_finished := True, num_rows := Some n\<rparr> else r"
  let ?g2 = "\<lambda>r. if where_query_key d r then r\<lparr>is_empty := True\<rparr> else r"
  from assms(1) have k: "key stored = key d" by (auto simp: db_fetchone_def find_Some_iff)
  with assms(2) have w: "where_query_key d stored" by (simp add: where_query_key_def)
  have s1: "find (\<lambda>r. key r = key d) (map ?g1 tbl) = map_option ?g1 (find (\<lambda>r. key r = key d) tbl)"
    by (rule find_map_inv) simp
  have s2: "find (\<lambda>r. key r = key d) (map ?g2 (map ?g1 tbl))
      = map_option ?g2 (find (\<lambda>r. key r = key d) (map ?g1 tbl))"
    by (rule find_map_inv) simp
  from assms(1) have "find (\<lambda>r. key r = key d) tbl = Some stored" by (simp add: db_fetchone_def)
  with s1 w have "find (\<lambda>r. key r = key d) (map ?g1 tbl)
      = Some (stored\<lparr>is_finished := True, num_rows := Some n\<rparr>)" by simp
  with s2 w have "find (\<lambda>r. key r = key d) (map ?g2 (map ?g1 tbl))
      = Some (stored\<lparr>is_finished := True, num_rows := Some n, is_empty := True\<rparr>)"
    by (simp add: where_query_key_def)
  then show ?thesis unfolding db_fetchone_def .
qed

lemma path_not_sentinel: "fld @ ''/'' @ name \<noteq> ''empty_file''"
proof
  assume e: "fld @ ''/'' @ name = ''empty_file''"
  have "CHR ''/'' \<in> set (fld @ ''/'' @ name)" by simp
  then have "CHR ''/'' \<in> set ''empty_file''" unfolding e .
  then show False by simp
qed

lemma example_finish_then_set_empty:
  "finish_then_set_empty [example_row] example_query 0 =
     (Inr (), [example_row\<lparr>is_finished := True, num_rows := Some 0, is_empty := True\<rparr>],
      example_query\<lparr>data := example_row\<lparr>is_finished := True, num_rows := Some 0\<rparr>\<rparr>)"
proof -
  have "\<not> is_finished (data example_query)" by (simp add: example_query_def example_row_def)
  then show ?thesis
    by (simp add: finish_then_set_empty_eq) (simp add: example_query_def where_query_key_def)
qed

text \<open>What the code does as the claim says: a record that is not finished answers \<open>None\<close>,
  and after \<open>finish\<close> a record whose reserved result file exists answers its path.\<close>

lemma check_query_finished_unfinished:
  "\<not> is_finished (data self) \<Longrightarrow> check_query_finished fs self = None"
  by (simp add: check_query_finished_def)

lemma check_query_finished_path:
  assumes "\<not> is_finished (data self)" and "result_file (data self) \<noteq> []"
    and "isfile fs (folder self @ ''/'' @ result_file (data self))"
  shows "check_query_finished fs (snd (snd (finish tbl self n)))
     = Some (folder self @ ''/'' @ result_file (data self))"
  using assms by (simp add: finish_eq check_query_finished_def)

text \<open>
  \<^bold>\<open>C4.\<close> The claim says that \<open>check_query_finished\<close> returns \<open>'empty_file'\<close> after \<open>finish(0)\<close>
  and \<open>set_empty()\<close> on a record. The code does not: \<open>set_empty\<close> updates the stored row and
  not \<open>self.data\<close>, so the object that made the two calls still has \<open>is_empty\<close> false and
  answers \<open>None\<close>. Here the stored example query is loaded by its key, no file exists,
  and the answer after \<open>finish(0)\<close> and \<open>set_empty()\<close> is \<open>None\<close>.
\<close>

theorem check_query_finished_same_object:
  "SearchQuery_init [example_row] [] ''/data'' 7 None PNone (Some ''0123abcd'') None ''csv''
     = (Inr example_query, [example_row])
   \<and> finish_then_set_empty [example_row] example_query 0 =
       (Inr (), [example_row\<lparr>is_finished := True, num_rows := Some 0, is_empty := True\<rparr>],
        example_query\<lparr>data := example_row\<lparr>is_finished := True, num_rows := Some 0\<rparr>\<rparr>)
   \<and> check_query_finished [] (example_query\<lparr>data := example_row\<lparr>is_finished := True, num_rows := Some 0\<rparr>\<rparr>)
       = None
   \<and> check_query_finished [] (example_query\<lparr>data := example_row\<lparr>is_finished := True, num_rows := Some 0\<rparr>\<rparr>)
       \<noteq> Some ''empty_file''"
proof -
  have 1: "SearchQuery_init [example_row] [] ''/data'' 7 None PNone (Some ''0123abcd'') None ''csv''
     = (Inr example_query, [example_row])"
    by (simp add: SearchQuery_init_def db_fetchone_def example_query_def example_row_def)
  have 2: "check_query_finished [] (example_query\<lparr>data := example_row\<lparr>is_finished := True, num_rows := Some 0\<rparr>\<rparr>)
       = None"
    by (simp add: check_query_finished_def isfile_def example_row_def)
  from 2 have 3: "check_query_finished [] (example_query\<lparr>data := example_row\<lparr>is_finished := True, num_rows := Some 0\<rparr>\<rparr>)
       \<noteq> Some ''empty_file''"
    by simp
  show ?thesis
    by (intro conjI) (rule 1, rule example_finish_then_set_empty, rule 2, rule 3)
qed

subsection \<open>What set_empty changes\<close>

text \<open>
  \<^bold>\<open>C10 (amended).\<close> \<open>set_empty\<close> writes \<open>is_empty = true\<close> to the stored rows with the
  record's query and key and leaves the object as it is. After \<open>finish(0)\<close> and
  \<open>set_empty()\<close> on one object, the object's \<open>is_empty\<close> is still false and
  \<open>check_query_finished\<close> on it never returns \<open>'empty_file'\<close>: it returns \<open>None\<close> when no
  file exists at the reserved path, and the path when one exists. A record loaded again
  from the store has \<open>is_empty\<close> true.
\<close>

theorem set_empty_writes_store_only:
  "(\<exists>tbl'. set_empty tbl self = (Inr (), tbl', self)
      \<and> tbl' = map (\<lambda>r. if where_query_key (data self) r then r\<lparr>is_empty := True\<rparr> else r) tbl)
   \<and> (\<not> is_finished (data self) \<and> \<not> is_empty (data self) \<longrightarrow>
       (\<exists>tbl2 self2.
          finish_then_set_empty tbl self 0 = (Inr (), tbl2, self2)
          \<and> self2 = self\<lparr>data := (data self)\<lparr>is_finished := True, num_rows := Some 0\<rparr>\<rparr>
          \<and> \<not> is_empty (data self2)
          \<and> check_query_finished fs self2 \<noteq> Some ''empty_file''
          \<and> (\<not> isfile fs (folder self @ ''/'' @ result_file (data self)) \<longrightarrow>
                check_query_finished fs self2 = None)
          \<and> (result_file (data self) \<noteq> [] \<and> isfile fs (folder self @ ''/'' @ result_file (data self)) \<longrightarrow>
                check_query_finished fs self2 = Some (folder self @ ''/'' @ result_file (data self)))
          \<and> (\<forall>stored. db_fetchone (\<lambda>r. key r = key (data self)) tbl = Some stored
                  \<and> query stored = query (data self) \<longrightarrow>
                (\<exists>obj. SearchQuery_init tbl2 fs2 fld now query_arg parameters_arg (Some (key (data self))) parent extension
                         = (Inr obj, tbl2)
                       \<and> is_empty (data obj)))))"
proof (intro conjI impI)
  show "\<exists>tbl'. set_empty tbl self = (Inr (), tbl', self)
      \<and> tbl' = map (\<lambda>r. if where_query_key (data self) r then r\<lparr>is_empty := True\<rparr> else r) tbl"
    by (simp add: set_empty_eq)
next
  assume a: "\<not> is_finished (data self) \<and> \<not> is_empty (data self)"
  let ?tbl2 = "map (\<lambda>r. if where_query_key (data self) r then r\<lparr>is_empty := True\<rparr> else r)
        (map (\<lambda>r. if where_query_key (data self) r
                   then r\<lparr>is_finished := True, num_rows := Some 0\<rparr> else r) tbl)"
  let ?self2 = "self\<lparr>data := (data self)\<lparr>is_finished := True, num_rows := Some 0\<rparr>\<rparr>"
  let ?path = "folder self @ ''/'' @ result_file (data self)"
  from a have 1: "finish_then_set_empty tbl self 0 = (Inr (), ?tbl2, ?self2)"
    by (simp add: finish_then_set_empty_eq)
  from a have 2: "\<not> is_empty (data ?self2)" by simp
  have 3: "check_query_finished fs ?self2 \<noteq> Some ''empty_file''"
    using a path_not_sentinel [of "folder self" "result_file (data self)"]
    by (simp add: check_query_finished_def)
  from a have 4: "\<not> isfile fs ?path \<longrightarrow> check_query_finished fs ?self2 = None"
    by (simp add: check_query_finished_def)
  have 5: "result_file (data self) \<noteq> [] \<and> isfile fs ?path \<longrightarrow> check_query_finished fs ?self2 = Some ?path"
    by (simp add: check_query_finished_def)
  have 6: "\<forall>stored. db_fetchone (\<lambda>r. key r = key (data self)) tbl = Some stored
                  \<and> query stored = query (data self) \<longrightarrow>
                (\<exists>obj. SearchQuery_init ?tbl2 fs2 fld now query_arg parameters_arg (Some (key (data self))) parent extension
                         = (Inr obj, ?tbl2)
                       \<and> is_empty (data obj))"
  proof (intro allI impI)
    fix stored
    assume s: "db_fetchone (\<lambda>r. key r = key (data self)) tbl = Some stored
                  \<and> query stored = query (data self)"
    then have f: "db_fetchone (\<lambda>r. key r = key (data self)) tbl = Some stored"
      and q: "query stored = query (data self)" by simp_all
    have "db_fetchone (\<lambda>r. key r = key (data self)) ?tbl2
        = Some (stored\<lparr>is_finished := True, num_rows := Some 0, is_empty := True\<rparr>)"
      by (rule reload_after_finish_set_empty [OF f q])
    then show "\<exists>obj. SearchQuery_init ?tbl2 fs2 fld now query_arg parameters_arg (Some (key (data self))) parent extension
                         = (Inr obj, ?tbl2)
                       \<and> is_empty (data obj)"
      by (simp add: SearchQuery_init_def)
  qed
  show "\<exists>tbl2 self2.
          finish_then_set_empty tbl self 0 = (Inr (), tbl2, self2)
          \<and> self2 = self\<lparr>data := (data self)\<lparr>is_finished := True, num_rows := Some 0\<rparr>\<rparr>
          \<and> \<not> is_empty (data self2)
          \<and> check_query_finished fs self2 \<noteq> Some ''empty_file''
          \<and> (\<not> isfile fs (folder self @ ''/'' @ result_file (data self)) \<longrightarrow>
                check_query_finished fs self2 = None)
          \<and> (result_file (data self) \<noteq> [] \<and> isfile fs (folder self @ ''/'' @ result_file (data self)) \<longrightarrow>
                check_query_finished fs self2 = Some (folder self @ ''/'' @ result_file (data self)))
          \<and> (\<forall>stored. db_fetchone (\<lambda>r. key r = key (data self)) tbl = Some stored
                  \<and> query stored = query (data self) \<longrightarrow>
                (\<exists>obj. SearchQuery_init tbl2 fs2 fld now query_arg parameters_arg (Some (key (data self))) parent extension
                         = (Inr obj, tbl2)
                       \<and> is_empty (data obj)))"
    by (intro exI conjI) (rule 1, rule refl, rule 2, rule 3, rule 4, rule 5, rule 6)
qed

theorem set_empty_writes_store_only_witness:
  "\<not> is_finished (data example_query) \<and> \<not> is_empty (data example_query)
   \<and> set_empty [example_row] example_query = (Inr (), [example_row\<lparr>is_empty := True\<rparr>], example_query)
   \<and> (\<exists>tbl2 self2.
         finish_then_set_empty [example_row] example_query 0 = (Inr (), tbl2, self2)
         \<and> \<not> is_empty (data self2)
         \<and> check_query_finished [] self2 = None
         \<and> (\<exists>obj. SearchQuery_init tbl2 [] ''/data'' 7 None PNone (Some ''0123abcd'') None ''csv'' = (Inr obj, tbl2)
                \<and> is_empty (data obj)))"
proof -
  have h: "\<not> is_finished (data example_query) \<and> \<not> is_empty (data example_query)"
    by (simp add: example_query_def example_row_def)
  have k: "key (data example_query) = ''0123abcd''" "folder example_query = ''/data''"
    by (simp_all add: example_query_def example_row_def)
  have st: "db_fetchone (\<lambda>r. key r = key (data example_query)) [example_row] = Some example_row
     \<and> query example_row = query (data example_query)"
    by (simp add: db_fetchone_def example_query_def)
  have nofile: "\<not> isfile [] (folder example_query @ ''/'' @ result_file (data example_query))"
    by (simp add: isfile_def)
  note t = set_empty_writes_store_only [of "[example_row]" example_query "[]" "[]" "''/data''" 7 None PNone None "''csv''"]
  from t have a: "set_empty [example_row] example_query = (Inr (), [example_row\<lparr>is_empty := True\<rparr>], example_query)"
    by (auto simp: where_query_key_def example_query_def)
  from t h obtain tbl2 self2 where
    1: "finish_then_set_empty [example_row] example_query 0 = (Inr (), tbl2, self2)"
    and 2: "\<not> is_empty (data self2)"
    and 3: "\<not> isfile [] (folder example_query @ ''/'' @ result_file (data example_query)) \<longrightarrow>
                check_query_finished [] self2 = None"
    and 4: "\<forall>stored. db_fetchone (\<lambda>r. key r = key (data example_query)) [example_row] = Some stored
                  \<and> query stored = query (data example_query) \<longrightarrow>
                (\<exists>obj. SearchQuery_init tbl2 [] ''/data'' 7 None PNone (Some (key (data example_query))) None ''csv''
                         = (Inr obj, tbl2)
                       \<and> is_empty (data obj))"
    by blast
  from 3 nofile have 5: "check_query_finished [] self2 = None" by blast
  from 4 st have 6: "\<exists>obj. SearchQuery_init tbl2 [] ''/data'' 7 None PNone (Some ''0123abcd'') None ''csv'' = (Inr obj, tbl2)
                \<and> is_empty (data obj)"
    unfolding k by blast
  from h a 1 2 5 6 show ?thesis by blast
qed

text \<open>
  With the result file on disk the answer on the same object is the path, not \<open>None\<close>.
\<close>

theorem set_empty_check_none_counterexample:
  "finish_then_set_empty [example_row] example_query 0 =
     (Inr (), [example_row\<lparr>is_finished := True, num_rows := Some 0, is_empty := True\<rparr>],
      example_query\<lparr>data := example_row\<lparr>is_finished := True, num_rows := Some 0\<rparr>\<rparr>)
   \<and> check_query_finished [''/data/climate-change-0123abcd.csv'']
         (example_query\<lparr>data := example_row\<lparr>is_finished := True, num_rows := Some 0\<rparr>\<rparr>)
       = Some ''/data/climate-change-0123abcd.csv''
   \<and> check_query_finished [''/data/climate-change-0123abcd.csv'']
         (example_query\<lparr>data := example_row\<lparr>is_finished := True, num_rows := Some 0\<rparr>\<rparr>)
       \<noteq> None"
proof -
  have "check_query_finished [''/data/climate-change-0123abcd.csv'']
         (example_query\<lparr>data := example_row\<lparr>is_finished := True, num_rows := Some 0\<rparr>\<rparr>)
       = Some ''/data/climate-change-0123abcd.csv''"
    by (simp add: check_query_finished_def isfile_def example_query_def example_row_def)
  with example_finish_then_set_empty show ?thesis by simp
qed

subsection \<open>Reserving the result file\<close>




























end
